theory Spec2Isabelle
  imports Complex_Main
begin

section \<open>Python exceptions and the column data model\<close>

text \<open>
  A Python exception is a value: its class and the text that \<open>str(e)\<close> gives. A function
  that may raise returns \<open>pyexc + 'a\<close>, with \<open>Inl\<close> for the raised exception.
\<close>

datatype exc_class =
    RuntimeError | RecursionError | NotImplementedError
  | ValueError | TypeError | OtherException string

datatype pyexc = PyExc (exc_type: exc_class) (exc_str: string)

text \<open>
  \<open>except RuntimeError\<close> catches the class and its built-in subclasses
  (\<open>RecursionError\<close> and \<open>NotImplementedError\<close>).
\<close>

fun isinstance_RuntimeError :: "pyexc \<Rightarrow> bool" where
  "isinstance_RuntimeError (PyExc RuntimeError m) = True"
| "isinstance_RuntimeError (PyExc RecursionError m) = True"
| "isinstance_RuntimeError (PyExc NotImplementedError m) = True"
| "isinstance_RuntimeError (PyExc c m) = False"

datatype dtype =
    Boolean | Int8 | Int16 | Int32 | Int64 | UInt8 | UInt16 | UInt32 | UInt64
  | Float32 | Float64 | Utf8 | Date | Datetime | Duration | Time
  | List | Object | Categorical

text \<open>
  Modelled from the spec: the native column object \<open>PySeries\<close> is compiled code that is
  not part of the Python sources. Section 3 of the specification gives its content: a
  name, one dtype and the logical sequence of values (the chunks, concatenated).
\<close>

record 'v pyseries =
  ps_name :: string
  ps_dtype :: dtype
  ps_values :: "'v list"

text \<open>
  Where an operation returns a fresh \<open>Series\<close>, the Python wrapper object is identified
  with the \<open>PySeries\<close> it holds (\<open>wrap_s\<close> and \<open>inner\<close> are the two directions).
  Operations that mutate a shared \<open>PySeries\<close> are modelled over an explicit store further
  down.
\<close>

definition wrap_s :: "'v pyseries \<Rightarrow> 'v pyseries" where
  "wrap_s s = s"

definition wrap_result :: "pyexc + 'v pyseries \<Rightarrow> pyexc + 'v pyseries" where
  "wrap_result r = (case r of Inl e \<Rightarrow> Inl e | Inr s \<Rightarrow> Inr (wrap_s s))"

section \<open>\<open>Series.sample\<close>\<close>

text \<open>
  \<open>sample_n\<close> and \<open>sample_frac\<close> are the two native sampling kernels
  (\<open>self._s.sample_n\<close>, \<open>self._s.sample_frac\<close>); they are parameters of the model.
  \<open>None\<close> is Python's \<open>None\<close>.
\<close>

definition Series_sample ::
  "('v pyseries \<Rightarrow> int \<Rightarrow> bool \<Rightarrow> bool \<Rightarrow> int option \<Rightarrow> pyexc + 'v pyseries) \<Rightarrow>
   ('v pyseries \<Rightarrow> 'f \<Rightarrow> bool \<Rightarrow> bool \<Rightarrow> int option \<Rightarrow> pyexc + 'v pyseries) \<Rightarrow>
   'v pyseries \<Rightarrow> int option \<Rightarrow> 'f option \<Rightarrow> bool \<Rightarrow> bool \<Rightarrow> int option \<Rightarrow>
   pyexc + 'v pyseries" where
  "Series_sample sample_n sample_frac self n frac' with_replacement shuffle seed =
     (if n \<noteq> None \<and> frac' \<noteq> None then
        Inl (PyExc ValueError ''n and frac were both supplied'')
      else if n = None \<and> frac' \<noteq> None then
        wrap_result (sample_frac self (the frac') with_replacement shuffle seed)
      else
        let n' = (if n = None then 1 else the n)
        in wrap_result (sample_n self n' with_replacement shuffle seed))"

text \<open>
  Modelled from the spec: the sampling kernels are compiled code. Section 4.3 of the
  specification makes a sample a selection of values of the column, and the docstring of
  \<open>Series.sample\<close> bounds the count by the length of the column. The kernel below
  stands for them where the model is run: it takes the first \<open>n\<close> values (the order
  and the seed play no part in what is proved) and refuses a count above the length
  unless sampling with replacement.
\<close>

definition head_sample_n ::
  "'v pyseries \<Rightarrow> int \<Rightarrow> bool \<Rightarrow> bool \<Rightarrow> int option \<Rightarrow> pyexc + 'v pyseries" where
  "head_sample_n s n with_replacement shuffle seed =
     (if \<not> with_replacement \<and> int (length (ps_values s)) < n then
        Inl (PyExc RuntimeError ''cannot take a larger sample than the total population'')
      else Inr (s\<lparr>ps_values := take (nat n) (ps_values s)\<rparr>))"

definition head_sample_frac ::
  "'v pyseries \<Rightarrow> rat \<Rightarrow> bool \<Rightarrow> bool \<Rightarrow> int option \<Rightarrow> pyexc + 'v pyseries" where
  "head_sample_frac s frac' with_replacement shuffle seed =
     head_sample_n s (\<lfloor>frac' * of_nat (length (ps_values s))\<rfloor>) with_replacement shuffle seed"

section \<open>Native kernels\<close>

text \<open>
  \<open>type(value)\<close> of a Python object, as far as the construction and arithmetic code
  tests it.
\<close>

datatype pytype =
    T_float | T_int | T_bool | T_str | T_date | T_datetime
  | T_list | T_tuple | T_Series | T_NoneType | T_other string

text \<open>
  The compiled kernels and the helper tables of \<open>polars.datatypes\<close> and
  \<open>polars.datatypes_constructor\<close> are not part of the Python sources read here. The
  Python code is modelled over any such kernels: they are the fields of one record.
  \<^item> \<open>kernel_binop op a b\<close> is \<open>getattr(a, op)(b)\<close> on two native columns;
  \<^item> \<open>kernel_getattr obj fname\<close> is \<open>getattr(obj, fname, None)\<close>, a method or \<open>None\<close>;
  \<^item> \<open>kernel_cast a d strict\<close> is \<open>a.cast(d, strict)\<close>;
  \<^item> \<open>arrow_sequence\<close> is \<open>arrow_to_pyseries(name, pa.array(values))\<close> with its
    availability check, \<open>nested_sequence\<close> the branch of \<open>sequence_to_pyseries\<close>
    that builds a list column from nested values;
  \<^item> \<open>arith_error_text\<close> formats the message of the \<open>ValueError\<close> of
    \<open>_arithmetic\<close>.
\<close>

record 'v native =
  type_of :: "'v \<Rightarrow> pytype"
  kernel_binop :: "string \<Rightarrow> 'v pyseries \<Rightarrow> 'v pyseries \<Rightarrow> pyexc + 'v pyseries"
  kernel_getattr :: "'v pyseries \<Rightarrow> string \<Rightarrow> ('v \<Rightarrow> pyexc + 'v pyseries) option"
  kernel_cast :: "'v pyseries \<Rightarrow> dtype \<Rightarrow> bool \<Rightarrow> pyexc + 'v pyseries"
  kernel_time_unit :: "'v pyseries \<Rightarrow> string option"
  dtype_to_ffiname :: "dtype \<Rightarrow> string"
  maybe_cast :: "'v \<Rightarrow> dtype \<Rightarrow> string option \<Rightarrow> pyexc + 'v"
  polars_type_to_constructor :: "dtype \<Rightarrow> string \<Rightarrow> 'v list \<Rightarrow> bool \<Rightarrow> pyexc + 'v pyseries"
  py_type_to_constructor :: "pytype \<Rightarrow> string \<Rightarrow> 'v list \<Rightarrow> bool \<Rightarrow> pyexc + 'v pyseries"
  arrow_sequence :: "string \<Rightarrow> 'v list \<Rightarrow> pyexc + 'v pyseries"
  nested_sequence :: "string \<Rightarrow> 'v list \<Rightarrow> bool \<Rightarrow> pyexc + 'v pyseries"
  arith_error_text :: "dtype \<Rightarrow> 'v \<Rightarrow> string"

section \<open>\<open>construction.py\<close>: building a column from a sequence\<close>

definition get_first_non_none :: "'v native \<Rightarrow> 'v list \<Rightarrow> 'v option" where
  "get_first_non_none N vals = find (\<lambda>v. type_of N v \<noteq> T_NoneType) vals"

definition sequence_to_pyseries ::
  "'v native \<Rightarrow> string \<Rightarrow> 'v list \<Rightarrow> dtype option \<Rightarrow> bool \<Rightarrow> pyexc + 'v pyseries" where
  "sequence_to_pyseries N name vals dtype strict =
     (let dtype' = (if vals = [] \<and> dtype = None then Some Float32 else dtype) in
      case dtype' of
        Some d \<Rightarrow>
          (case polars_type_to_constructor N d name vals strict of
             Inl e \<Rightarrow> Inl e
           | Inr pyseries \<Rightarrow>
               if d = Date then kernel_cast N pyseries Date True
               else if d = Datetime then kernel_cast N pyseries Datetime True
               else Inr pyseries)
      | None \<Rightarrow>
          (let first_value = get_first_non_none N vals;
               dtype0 = (case first_value of Some v \<Rightarrow> type_of N v | None \<Rightarrow> T_float)
           in if dtype0 = T_date \<or> dtype0 = T_datetime then arrow_sequence N name vals
              else if dtype0 = T_list \<or> dtype0 = T_tuple \<or> dtype0 = T_Series then
                nested_sequence N name vals strict
              else py_type_to_constructor N dtype0 name vals strict))"

section \<open>\<open>Series\<close>: dtype tests, cast and arithmetic operators\<close>

definition is_datelike :: "'v pyseries \<Rightarrow> bool" where
  "is_datelike self = (ps_dtype self \<in> set [Date, Datetime, Duration, Time])"

definition is_float :: "'v pyseries \<Rightarrow> bool" where
  "is_float self = (ps_dtype self \<in> set [Float32, Float64])"

definition Series_cast :: "'v native \<Rightarrow> 'v pyseries \<Rightarrow> dtype \<Rightarrow> bool \<Rightarrow> pyexc + 'v pyseries" where
  "Series_cast N self dtype strict = wrap_result (kernel_cast N self dtype strict)"

text \<open>\<open>name.replace("<>", ffi_name)\<close> and the substring test \<open>sub in s\<close>.\<close>

fun replace_placeholder :: "string \<Rightarrow> string \<Rightarrow> string" where
  "replace_placeholder [] ffi_name = []"
| "replace_placeholder [c] ffi_name = [c]"
| "replace_placeholder (c # d # cs) ffi_name =
     (if c = CHR ''<'' \<and> d = CHR ''>'' then ffi_name @ replace_placeholder cs ffi_name
      else c # replace_placeholder (d # cs) ffi_name)"

fun py_in :: "string \<Rightarrow> string \<Rightarrow> bool" where
  "py_in sub [] = (sub = [])"
| "py_in sub (c # cs) = (take (length sub) (c # cs) = sub \<or> py_in sub cs)"

definition get_ffi_func ::
  "'v native \<Rightarrow> string \<Rightarrow> dtype \<Rightarrow> 'v pyseries \<Rightarrow> ('v \<Rightarrow> pyexc + 'v pyseries) option" where
  "get_ffi_func N name dtype obj =
     (let ffi_name = dtype_to_ffiname N dtype;
          fname = replace_placeholder name ffi_name
      in kernel_getattr N obj fname)"

text \<open>
  The right operand of an operator is another \<open>Series\<close> or any other Python object.
\<close>

datatype 'v operand = OSeries "'v pyseries" | OValue 'v

definition Series_arithmetic ::
  "'v native \<Rightarrow> 'v pyseries \<Rightarrow> 'v operand \<Rightarrow> string \<Rightarrow> string \<Rightarrow> pyexc + 'v pyseries" where
  "Series_arithmetic N self other op_s op_ffi =
     (case other of
        OSeries other_s \<Rightarrow> wrap_result (kernel_binop N op_s self other_s)
      | OValue x \<Rightarrow>
          if type_of N x = T_float \<and> \<not> is_float self then
            (case sequence_to_pyseries N '''' [x] None True of
               Inl e \<Rightarrow> Inl e
             | Inr s \<Rightarrow>
                 if py_in ''rhs'' op_ffi then wrap_result (kernel_binop N op_s s self)
                 else wrap_result (kernel_binop N op_s self s))
          else
            (case maybe_cast N x (ps_dtype self) (kernel_time_unit N self) of
               Inl e \<Rightarrow> Inl e
             | Inr x' \<Rightarrow>
                 (case get_ffi_func N op_ffi (ps_dtype self) self of
                    None \<Rightarrow> Inl (PyExc ValueError (arith_error_text N (ps_dtype self) x'))
                  | Some f \<Rightarrow> wrap_result (f x'))))"

text \<open>
  \<open>__truediv__\<close> calls itself on the cast column (\<open>self.cast(Float64) / other\<close>).
  Whether that call comes back depends on the dtype the cast kernel gives, so the
  function is partial: \<open>None\<close> is a call that never returns.
\<close>

partial_function (option) Series_truediv ::
  "'v native \<Rightarrow> 'v pyseries \<Rightarrow> 'v operand \<Rightarrow> (pyexc + 'v pyseries) option" where
  "Series_truediv N self other =
     (if is_datelike self then
        Some (Inl (PyExc ValueError ''first cast to integer before dividing datelike dtypes''))
      else if is_float self then
        Some (Series_arithmetic N self other ''div'' ''div_<>'')
      else
        (case Series_cast N self Float64 True of
           Inl e \<Rightarrow> Some (Inl e)
         | Inr self' \<Rightarrow> Series_truediv N self' other))"

definition Series_mul :: "'v native \<Rightarrow> 'v pyseries \<Rightarrow> 'v operand \<Rightarrow> pyexc + 'v pyseries" where
  "Series_mul N self other =
     (if is_datelike self then
        Inl (PyExc ValueError ''first cast to integer before multiplying datelike dtypes'')
      else Series_arithmetic N self other ''mul'' ''mul_<>'')"

definition Series_mod :: "'v native \<Rightarrow> 'v pyseries \<Rightarrow> 'v operand \<Rightarrow> pyexc + 'v pyseries" where
  "Series_mod N self other =
     (if is_datelike self then
        Inl (PyExc ValueError
               ''first cast to integer before applying modulo on datelike dtypes'')
      else Series_arithmetic N self other ''rem'' ''rem_<>'')"

definition Series_rmod :: "'v native \<Rightarrow> 'v pyseries \<Rightarrow> 'v operand \<Rightarrow> pyexc + 'v pyseries" where
  "Series_rmod N self other =
     (if is_datelike self then
        Inl (PyExc ValueError
               ''first cast to integer before applying modulo on datelike dtypes'')
      else Series_arithmetic N self other ''rem'' ''rem_<>_rhs'')"

definition Series_rmul :: "'v native \<Rightarrow> 'v pyseries \<Rightarrow> 'v operand \<Rightarrow> pyexc + 'v pyseries" where
  "Series_rmul N self other =
     (if is_datelike self then
        Inl (PyExc ValueError ''first cast to integer before multiplying datelike dtypes'')
      else Series_arithmetic N self other ''mul'' ''mul_<>'')"

text \<open>
  On a float column \<open>_arithmetic\<close> with \<open>"div"\<close> is the division kernel itself: the
  native \<open>div\<close> of the two columns for a \<open>Series\<close> operand, and for any other operand
  the method that \<open>get_ffi_func("div_<>", ...)\<close> finds, applied to the operand that
  \<open>maybe_cast\<close> returns.
\<close>

definition float_division ::
  "'v native \<Rightarrow> 'v pyseries \<Rightarrow> 'v operand \<Rightarrow> pyexc + 'v pyseries" where
  "float_division N c other =
     (case other of
        OSeries b \<Rightarrow> kernel_binop N ''div'' c b
      | OValue x \<Rightarrow>
          (case maybe_cast N x (ps_dtype c) (kernel_time_unit N c) of
             Inl e \<Rightarrow> Inl e
           | Inr x' \<Rightarrow>
               (case get_ffi_func N ''div_<>'' (ps_dtype c) c of
                  None \<Rightarrow> Inl (PyExc ValueError (arith_error_text N (ps_dtype c) x'))
                | Some f \<Rightarrow> f x')))"

section \<open>A kernel instance on exact numbers\<close>

text \<open>
  Modelled from the spec: the compiled arithmetic and cast kernels are missing from the
  sources. The instance below follows what sections 4.1 and 8 of the specification say
  of them, on columns of numbers: a cast to Float64 turns every integer or boolean into
  the float of the same value and fails under \<open>strict\<close> on a string; the division
  kernel of a Float64 column divides element by element and gives a Float64 column
  ("float absorbs int"). Quotients are exact: the instance covers finite values and
  non-zero divisors, and answers every other request with an exception, so rounding,
  infinities and NaN are outside it.
\<close>

datatype pyval = PNone | PBool bool | PInt int | PFloat real | PStr string

fun pyval_type :: "pyval \<Rightarrow> pytype" where
  "pyval_type PNone = T_NoneType"
| "pyval_type (PBool b) = T_bool"
| "pyval_type (PInt n) = T_int"
| "pyval_type (PFloat x) = T_float"
| "pyval_type (PStr s) = T_str"

fun to_float :: "pyval \<Rightarrow> pyval option" where
  "to_float PNone = Some PNone"
| "to_float (PBool b) = Some (PFloat (if b then 1 else 0))"
| "to_float (PInt n) = Some (PFloat (of_int n))"
| "to_float (PFloat x) = Some (PFloat x)"
| "to_float (PStr s) = None"

fun all_some :: "'a option list \<Rightarrow> 'a list option" where
  "all_some [] = Some []"
| "all_some (None # xs) = None"
| "all_some (Some x # xs) = (case all_some xs of None \<Rightarrow> None | Some ys \<Rightarrow> Some (x # ys))"

definition exact_cast :: "pyval pyseries \<Rightarrow> dtype \<Rightarrow> bool \<Rightarrow> pyexc + pyval pyseries" where
  "exact_cast a d strict =
     (if d = Float64 then
        (case all_some (map to_float (ps_values a)) of
           Some vs \<Rightarrow> Inr (a\<lparr>ps_dtype := Float64, ps_values := vs\<rparr>)
         | None \<Rightarrow>
             if strict then Inl (PyExc RuntimeError ''strict conversion to Float64 failed'')
             else Inr (a\<lparr>ps_dtype := Float64,
                        ps_values := map (\<lambda>v. case to_float v of Some w \<Rightarrow> w | None \<Rightarrow> PNone)
                                         (ps_values a)\<rparr>))
      else if d = ps_dtype a then Inr a
      else Inl (PyExc NotImplementedError ''cast outside the exact kernel''))"

fun exact_quotient :: "pyval \<Rightarrow> pyval \<Rightarrow> pyval option" where
  "exact_quotient PNone y = (if pyval_type y \<in> set [T_NoneType, T_int, T_float] then Some PNone else None)"
| "exact_quotient (PFloat x) PNone = Some PNone"
| "exact_quotient (PFloat x) (PFloat y) = (if y = 0 then None else Some (PFloat (x / y)))"
| "exact_quotient (PFloat x) (PInt n) = (if n = 0 then None else Some (PFloat (x / of_int n)))"
| "exact_quotient x y = None"

definition exact_div :: "pyval pyseries \<Rightarrow> pyval pyseries \<Rightarrow> pyexc + pyval pyseries" where
  "exact_div a b =
     (if ps_dtype a = Float64 \<and> length (ps_values a) = length (ps_values b) then
        (case all_some (map2 exact_quotient (ps_values a) (ps_values b)) of
           Some vs \<Rightarrow> Inr (a\<lparr>ps_values := vs\<rparr>)
         | None \<Rightarrow> Inl (PyExc NotImplementedError ''division outside the exact kernel''))
      else Inl (PyExc NotImplementedError ''division outside the exact kernel''))"

fun exact_ffiname :: "dtype \<Rightarrow> string" where
  "exact_ffiname Float64 = ''f64''"
| "exact_ffiname Float32 = ''f32''"
| "exact_ffiname Int64 = ''i64''"
| "exact_ffiname Int32 = ''i32''"
| "exact_ffiname d = ''other''"

definition exact_native :: "pyval native" where
  "exact_native =
     \<lparr>type_of = pyval_type,
      kernel_binop = (\<lambda>op a b. if op = ''div'' then exact_div a b
                                else Inl (PyExc NotImplementedError ''kernel outside the exact kernel'')),
      kernel_getattr = (\<lambda>obj fname.
         if fname = ''div_f64'' then
           Some (\<lambda>x. exact_div obj (obj\<lparr>ps_values := map (\<lambda>_. x) (ps_values obj)\<rparr>))
         else None),
      kernel_cast = exact_cast,
      kernel_time_unit = (\<lambda>a. None),
      dtype_to_ffiname = exact_ffiname,
      maybe_cast = (\<lambda>x d tu. Inr (if d = Float64 then (case to_float x of Some w \<Rightarrow> w | None \<Rightarrow> x) else x)),
      polars_type_to_constructor = (\<lambda>d name vals strict.
         if vals = [] then Inr \<lparr>ps_name = name, ps_dtype = d, ps_values = []\<rparr>
         else exact_cast \<lparr>ps_name = name, ps_dtype = Object, ps_values = vals\<rparr> d strict),
      py_type_to_constructor = (\<lambda>t name vals strict.
         if t = T_float then exact_cast \<lparr>ps_name = name, ps_dtype = Object, ps_values = vals\<rparr> Float64 strict
         else Inl (PyExc NotImplementedError ''constructor outside the exact kernel'')),
      arrow_sequence = (\<lambda>name vals. Inl (PyExc NotImplementedError ''arrow outside the exact kernel'')),
      nested_sequence = (\<lambda>name vals strict. Inl (PyExc NotImplementedError ''nested outside the exact kernel'')),
      arith_error_text = (\<lambda>d x. ''cannot do arithmetic with series of this dtype and argument'')\<rparr>"

section \<open>\<open>selectors.py\<close>: the selector proxy and its inversion\<close>

text \<open>
  Modelled from the spec: the expression constructors \<open>F.all()\<close>, \<open>F.col(...)\<close> and
  \<open>Expr.exclude(...)\<close> live in modules that are not part of the sources read here.
  Section 3 of the specification makes an expression an immutable tagged tree, so each
  call is kept as the node it builds: \<open>F_col_star ps\<close> is the call \<open>F.col(*ps)\<close> with
  the elements of \<open>ps\<close> as its arguments, \<open>F_col_list ps\<close> is \<open>F.col(ps)\<close> with one
  list argument, \<open>Exclude_star e ps\<close> is \<open>e.exclude(*ps)\<close>.
\<close>

datatype 'p expr =
    F_all | F_first | F_last
  | F_col_star "'p list" | F_col_list "'p list"
  | Exclude_star "'p expr" "'p list"

text \<open>
  The proxy object: \<open>_pyexpr\<close>, \<open>_inverted\<close> and the three entries of the \<open>_attrs\<close>
  dictionary. A Python dict is an association list in insertion order, \<open>None\<close> is
  Python's \<open>None\<close>.
\<close>

record 'p selector_proxy =
  pyexpr :: "'p expr"
  inverted :: bool
  attrs_raw_params :: "'p list option"
  attrs_params :: "(string \<times> 'p) list option"
  attrs_type :: string

definition selector_proxy_init ::
  "'p expr \<Rightarrow> string \<Rightarrow> (string \<times> 'p) list option \<Rightarrow> 'p list option \<Rightarrow> bool
     \<Rightarrow> 'p selector_proxy" where
  "selector_proxy_init e type_name parameters raw_parameters invert =
     \<lparr>pyexpr = e, inverted = invert, attrs_raw_params = raw_parameters,
      attrs_params = parameters, attrs_type = type_name\<rparr>"

text \<open>\<open>x or default\<close> on an optional container: \<open>None\<close> and the empty one are falsy.\<close>

definition or_empty :: "'a list option \<Rightarrow> 'a list" where
  "or_empty x = (case x of None \<Rightarrow> [] | Some l \<Rightarrow> l)"

definition selector_invert :: "'p selector_proxy \<Rightarrow> pyexc + 'p selector_proxy" where
  "selector_invert self =
     (let selector_type = attrs_type self in
      if selector_type \<in> set [''first'', ''last''] then
        Inl (PyExc ValueError
               (''Cannot currently invert '' @ [CHR 0x27] @ selector_type @ [CHR 0x27] @ '' selector''))
      else
        let params = or_empty (attrs_params self);
            raw_params0 = or_empty (attrs_raw_params self);
            raw_params = (if raw_params0 = [] \<and> params \<noteq> [] then map snd params else raw_params0);
            inverted_expr =
              (if selector_type = ''all'' then (if inverted self then F_all else F_col_list [])
               else if inverted self then F_col_star raw_params
               else Exclude_star F_all raw_params)
        in Inr (selector_proxy_init inverted_expr selector_type (Some params) (Some raw_params)
                  (\<not> inverted self)))"

text \<open>
  The parameter list a selector has captured at construction: its raw list, and the
  values of its parameters when no raw list (or an empty one) was stored.
\<close>

definition captured_params :: "'p selector_proxy \<Rightarrow> 'p list" where
  "captured_params self =
     (case attrs_raw_params self of
        Some (x # xs) \<Rightarrow> x # xs
      | _ \<Rightarrow> (case attrs_params self of None \<Rightarrow> [] | Some d \<Rightarrow> map snd d))"

section \<open>\<open>pypolars/frame.py\<close>: \<open>DataFrame.__getitem__\<close> on a slice\<close>

text \<open>
  A Python \<open>slice\<close> object has the three data attributes \<open>start\<close>, \<open>stop\<close> and
  \<open>step\<close> and the method \<open>indices\<close>; \<open>getattr(item, name, default)\<close> gives the
  default for every other name (the attributes every object has, whose names begin with
  two underscores, are left out).
\<close>

record pyslice =
  sl_start :: "int option"
  sl_stop :: "int option"
  sl_step :: "int option"

datatype attr_value = ANone | ABool bool | AInt int | AMethod string

definition opt_attr :: "int option \<Rightarrow> attr_value" where
  "opt_attr x = (case x of None \<Rightarrow> ANone | Some i \<Rightarrow> AInt i)"

definition slice_getattr :: "pyslice \<Rightarrow> string \<Rightarrow> attr_value \<Rightarrow> attr_value" where
  "slice_getattr item name dflt =
     (if name = ''start'' then opt_attr (sl_start item)
      else if name = ''stop'' then opt_attr (sl_stop item)
      else if name = ''step'' then opt_attr (sl_step item)
      else if name = ''indices'' then AMethod ''indices''
      else dflt)"

fun truthy :: "attr_value \<Rightarrow> bool" where
  "truthy ANone = False"
| "truthy (ABool b) = b"
| "truthy (AInt i) = (i \<noteq> 0)"
| "truthy (AMethod m) = True"

text \<open>
  The native frame \<open>PyDataFrame\<close> is compiled code; its methods are the fields of a
  record. \<open>df_other_item\<close> stands for the branches of \<open>__getitem__\<close> on a tuple, a
  sequence or a \<open>Series\<close>, which a slice never reaches.
\<close>

record ('df, 's, 'x) frame_kernels =
  df_column :: "'df \<Rightarrow> string \<Rightarrow> pyexc + 's"
  df_select_at_idx :: "'df \<Rightarrow> int \<Rightarrow> pyexc + 's"
  df_height :: "'df \<Rightarrow> int"
  df_slice :: "'df \<Rightarrow> int \<Rightarrow> int \<Rightarrow> pyexc + 'df"
  df_other_item :: "'df \<Rightarrow> 'x \<Rightarrow> pyexc + ('s + 'df)"

datatype 'x df_item = ItemStr string | ItemInt int | ItemSlice pyslice | ItemOther 'x

definition DataFrame_slice ::
  "('df, 's, 'x) frame_kernels \<Rightarrow> 'df \<Rightarrow> int \<Rightarrow> int \<Rightarrow> pyexc + 'df" where
  "DataFrame_slice K self offset len = df_slice K self offset len"

definition as_series :: "pyexc + 's \<Rightarrow> pyexc + ('s + 'df)" where
  "as_series r = (case r of Inl e \<Rightarrow> Inl e | Inr s \<Rightarrow> Inr (Inl s))"

definition as_frame :: "pyexc + 'df \<Rightarrow> pyexc + ('s + 'df)" where
  "as_frame r = (case r of Inl e \<Rightarrow> Inl e | Inr d \<Rightarrow> Inr (Inr d))"

definition DataFrame_getitem ::
  "('df, 's, 'x) frame_kernels \<Rightarrow> 'df \<Rightarrow> 'x df_item \<Rightarrow> pyexc + ('s + 'df)" where
  "DataFrame_getitem K self item =
     (case item of
        ItemOther x \<Rightarrow> df_other_item K self x
      | ItemStr name \<Rightarrow> as_series (df_column K self name)
      | ItemInt i \<Rightarrow> as_series (df_select_at_idx K self i)
      | ItemSlice sl \<Rightarrow>
          if truthy (slice_getattr sl ''end'' (ABool False)) then
            Inl (PyExc ValueError ''a slice with steps larger than 1 is not supported'')
          else
            let start = (case sl_start sl of None \<Rightarrow> 0 | Some a \<Rightarrow> a);
                stop = (case sl_stop sl of None \<Rightarrow> df_height K self | Some b \<Rightarrow> b);
                len = stop - start
            in as_frame (DataFrame_slice K self start len))"

text \<open>
  Modelled from the spec: a frame kernel on lists of columns, to run the model. The
  height is the common length of the columns and \<open>slice(offset, length)\<close> keeps
  \<open>length\<close> rows from row \<open>offset\<close> on (section 4.2); the native method takes
  unsigned arguments, so a negative one is refused before it is called.
\<close>

definition columns_height :: "'v pyseries list \<Rightarrow> int" where
  "columns_height df = (case df of [] \<Rightarrow> 0 | c # cs \<Rightarrow> int (length (ps_values c)))"

definition columns_slice :: "'v pyseries list \<Rightarrow> int \<Rightarrow> int \<Rightarrow> pyexc + 'v pyseries list" where
  "columns_slice df offset len =
     (if offset < 0 \<or> len < 0 then
        Inl (PyExc (OtherException ''OverflowError'') ''can't convert negative int to unsigned'')
      else Inr (map (\<lambda>c. c\<lparr>ps_values := take (nat len) (drop (nat offset) (ps_values c))\<rparr>) df))"

definition columns_kernels :: "('v pyseries list, 'v pyseries, unit) frame_kernels" where
  "columns_kernels =
     \<lparr>df_column = (\<lambda>df name. case find (\<lambda>c. ps_name c = name) df of
                                 None \<Rightarrow> Inl (PyExc RuntimeError ''column not found'')
                               | Some c \<Rightarrow> Inr c),
      df_select_at_idx = (\<lambda>df i. if 0 \<le> i \<and> i < int (length df) then Inr (df ! nat i)
                                  else Inl (PyExc RuntimeError ''column index out of range'')),
      df_height = columns_height,
      df_slice = columns_slice,
      df_other_item = (\<lambda>df x. Inl (PyExc NotImplementedError ''item outside the column kernel''))\<rparr>"

section \<open>Shared native columns: a store of \<open>PySeries\<close> objects\<close>

text \<open>
  A Python \<open>Series\<close> holds a reference \<open>_s\<close> to a native column, and two \<open>Series\<close>
  may hold the same one. For the operations that mutate a column in place the native
  columns live in a store and a \<open>Series\<close> is the reference it holds; \<open>inner\<close> is
  \<open>Series.inner()\<close>.
\<close>

type_synonym ref = nat

datatype series = Series (inner: ref)

subsection \<open>\<open>Series.append\<close>\<close>

text \<open>
  The native methods \<open>append\<close>, \<open>extend\<close> and \<open>clone\<close> are compiled code: they are
  parameters, over any state \<open>'st\<close> of the native side (columns and their borrow flags).
  Each may raise and may change the state.
\<close>

record 'st cell_kernels =
  cell_append :: "'st \<Rightarrow> ref \<Rightarrow> ref \<Rightarrow> (pyexc + unit) \<times> 'st"
  cell_extend :: "'st \<Rightarrow> ref \<Rightarrow> ref \<Rightarrow> (pyexc + unit) \<times> 'st"
  cell_clone :: "'st \<Rightarrow> ref \<Rightarrow> (pyexc + ref) \<times> 'st"

definition Series_clone :: "'st cell_kernels \<Rightarrow> 'st \<Rightarrow> series \<Rightarrow> (pyexc + series) \<times> 'st" where
  "Series_clone K st self =
     (case cell_clone K st (inner self) of
        (Inl e, st') \<Rightarrow> (Inl e, st')
      | (Inr r, st') \<Rightarrow> (Inr (Series r), st'))"

text \<open>
  \<open>inplace_append\<close> is the body of the \<open>try\<close> block. \<open>Series.append\<close> calls itself in its \<open>except\<close> branch, as often as the native method
  keeps raising the borrow error: the function is partial, and \<open>None\<close> is a call that
  never returns.
\<close>

definition inplace_append ::
  "'st cell_kernels \<Rightarrow> 'st \<Rightarrow> series \<Rightarrow> series \<Rightarrow> bool \<Rightarrow> (pyexc + unit) \<times> 'st" where
  "inplace_append K st self other append_chunks =
     (if append_chunks then cell_append K st (inner self) (inner other)
      else cell_extend K st (inner self) (inner other))"

partial_function (option) Series_append ::
  "'st cell_kernels \<Rightarrow> 'st \<Rightarrow> series \<Rightarrow> series \<Rightarrow> bool \<Rightarrow> ((pyexc + unit) \<times> 'st) option" where
  "Series_append K st self other append_chunks =
     (case inplace_append K st self other append_chunks of
        (Inr u, st1) \<Rightarrow> Some (Inr (), st1)
      | (Inl e, st1) \<Rightarrow>
          if isinstance_RuntimeError e then
            if exc_str e = ''Already mutably borrowed'' then
              (case Series_clone K st1 other of
                 (Inl e', st2) \<Rightarrow> Some (Inl e', st2)
               | (Inr other', st2) \<Rightarrow> Series_append K st2 self other' append_chunks)
            else Some (Inl e, st1)
          else Some (Inl e, st1))"

text \<open>The condition of the \<open>except\<close> branch that retries.\<close>

definition already_borrowed :: "pyexc \<Rightarrow> bool" where
  "already_borrowed e = (isinstance_RuntimeError e \<and> exc_str e = ''Already mutably borrowed'')"

subsection \<open>A store of columns\<close>

text \<open>
  Modelled from the spec: the native methods \<open>rename\<close>, \<open>clone\<close> and \<open>append\<close> of
  \<open>PySeries\<close> are compiled code. By sections 3, 4.2 and 4.3 of the specification
  \<open>rename\<close> changes the name of the column in place, \<open>clone\<close> gives a new column
  with the same content, \<open>append\<close> puts the values of the other column behind its own,
  and an in-place append fails with the borrow error when the column it mutates is
  borrowed elsewhere at the same time, which in one thread is the case when the other
  column is the very same object.
\<close>

record 'v store =
  objs :: "ref \<Rightarrow> 'v pyseries option"
  next_ref :: ref

definition alloc :: "'v store \<Rightarrow> 'v pyseries \<Rightarrow> ref \<times> 'v store" where
  "alloc st p = (next_ref st, st\<lparr>objs := (objs st)(next_ref st \<mapsto> p), next_ref := Suc (next_ref st)\<rparr>)"

definition store_rename :: "'v store \<Rightarrow> ref \<Rightarrow> string \<Rightarrow> 'v store" where
  "store_rename st r name =
     (case objs st r of
        None \<Rightarrow> st
      | Some p \<Rightarrow> st\<lparr>objs := (objs st)(r \<mapsto> p\<lparr>ps_name := name\<rparr>)\<rparr>)"

definition store_clone :: "'v store \<Rightarrow> ref \<Rightarrow> (pyexc + ref) \<times> 'v store" where
  "store_clone st r =
     (case objs st r of
        None \<Rightarrow> (Inl (PyExc RuntimeError ''no such column''), st)
      | Some p \<Rightarrow> (case alloc st p of (r', st') \<Rightarrow> (Inr r', st')))"

definition store_append :: "'v store \<Rightarrow> ref \<Rightarrow> ref \<Rightarrow> (pyexc + unit) \<times> 'v store" where
  "store_append st a b =
     (if a = b then (Inl (PyExc RuntimeError ''Already mutably borrowed''), st)
      else case (objs st a, objs st b) of
          (Some pa, Some pb) \<Rightarrow>
            (Inr (), st\<lparr>objs := (objs st)(a \<mapsto> pa\<lparr>ps_values := ps_values pa @ ps_values pb\<rparr>)\<rparr>)
        | _ \<Rightarrow> (Inl (PyExc RuntimeError ''no such column''), st))"

definition store_kernels :: "'v store cell_kernels" where
  "store_kernels = \<lparr>cell_append = store_append, cell_extend = store_append, cell_clone = store_clone\<rparr>"

subsection \<open>\<open>Series.name\<close>, \<open>Series.dtype\<close>, \<open>alias\<close> and \<open>rename\<close>\<close>

definition Series_name :: "'v store \<Rightarrow> series \<Rightarrow> string option" where
  "Series_name st self = map_option ps_name (objs st (inner self))"

definition Series_dtype :: "'v store \<Rightarrow> series \<Rightarrow> dtype option" where
  "Series_dtype st self = map_option ps_dtype (objs st (inner self))"

definition Series_alias :: "'v store \<Rightarrow> series \<Rightarrow> string \<Rightarrow> (pyexc + series) \<times> 'v store" where
  "Series_alias st self name =
     (case Series_clone store_kernels st self of
        (Inl e, st') \<Rightarrow> (Inl e, st')
      | (Inr s, st') \<Rightarrow> (Inr s, store_rename st' (inner s) name))"

text \<open>\<open>rename\<close> returns \<open>None\<close> when it works in place, the renamed copy otherwise.\<close>

definition Series_rename ::
  "'v store \<Rightarrow> series \<Rightarrow> string \<Rightarrow> bool \<Rightarrow> (pyexc + series option) \<times> 'v store" where
  "Series_rename st self name in_place =
     (if in_place then (Inr None, store_rename st (inner self) name)
      else case Series_alias st self name of
          (Inl e, st') \<Rightarrow> (Inl e, st')
        | (Inr s, st') \<Rightarrow> (Inr (Some s), st'))"

subsection \<open>\<open>series_to_pyseries\<close> and \<open>Series.__init__\<close>\<close>

definition series_to_pyseries :: "'v store \<Rightarrow> string \<Rightarrow> series \<Rightarrow> (pyexc + ref) \<times> 'v store" where
  "series_to_pyseries st name vals =
     (case Series_rename st vals name True of
        (Inl e, st') \<Rightarrow> (Inl e, st')
      | (Inr u, st') \<Rightarrow> (Inr (inner vals), st'))"

text \<open>
  The values a \<open>Series\<close> is built from: another \<open>Series\<close>, a Python sequence, or an
  Arrow array, numpy array or pandas object, whose content \<open>'x\<close> only the converters
  read. The converters and the flags that say which libraries are installed are
  parameters.
\<close>

datatype ('v, 'x) array_like =
    ValSeries series | ValArrow 'x | ValNumpy 'x | ValSequence "'v list"
  | ValPandas 'x | ValOther 'x

record ('v, 'x) converters =
  pyarrow_available :: bool
  numpy_available :: bool
  pandas_available :: bool
  arrow_to_pyseries :: "string \<Rightarrow> 'x \<Rightarrow> pyexc + 'v pyseries"
  numpy_to_pyseries :: "string \<Rightarrow> 'x \<Rightarrow> bool \<Rightarrow> bool \<Rightarrow> pyexc + 'v pyseries"
  pandas_to_pyseries :: "string \<Rightarrow> 'x \<Rightarrow> pyexc + 'v pyseries"

text \<open>A column that a constructor has built becomes a new object of the store.\<close>

definition new_series :: "'v store \<Rightarrow> pyexc + 'v pyseries \<Rightarrow> (pyexc + series) \<times> 'v store" where
  "new_series st r =
     (case r of
        Inl e \<Rightarrow> (Inl e, st)
      | Inr p \<Rightarrow> (case alloc st p of (r', st') \<Rightarrow> (Inr (Series r'), st')))"

definition Series_init ::
  "'v native \<Rightarrow> ('v, 'x) converters \<Rightarrow> 'v store \<Rightarrow> (string + ('v, 'x) array_like) option \<Rightarrow>
   ('v, 'x) array_like option \<Rightarrow> dtype option \<Rightarrow> bool \<Rightarrow> bool \<Rightarrow> (pyexc + series) \<times> 'v store" where
  "Series_init N C st name vals dtype strict nan_to_null =
     (case (case name of
              Some (Inr a) \<Rightarrow>
                (case vals of
                   None \<Rightarrow> Inr (None, Some a)
                 | Some v \<Rightarrow> Inl (PyExc ValueError ''Series name must be a string.''))
            | Some (Inl n) \<Rightarrow> Inr (Some n, vals)
            | None \<Rightarrow> Inr (None, vals)) of
        Inl e \<Rightarrow> (Inl e, st)
      | Inr (name1, vals1) \<Rightarrow>
          let name2 = (case name1 of None \<Rightarrow> '''' | Some n \<Rightarrow> n) in
          (case vals1 of
             None \<Rightarrow> new_series st (sequence_to_pyseries N name2 [] dtype True)
           | Some (ValSeries s) \<Rightarrow>
               (case series_to_pyseries st name2 s of
                  (Inl e, st') \<Rightarrow> (Inl e, st')
                | (Inr r, st') \<Rightarrow> (Inr (Series r), st'))
           | Some (ValArrow a) \<Rightarrow>
               if pyarrow_available C then new_series st (arrow_to_pyseries C name2 a)
               else (Inl (PyExc ValueError ''Series constructor not called properly.''), st)
           | Some (ValNumpy a) \<Rightarrow>
               if numpy_available C then
                 (case numpy_to_pyseries C name2 a strict nan_to_null of
                    Inl e \<Rightarrow> (Inl e, st)
                  | Inr p \<Rightarrow>
                      (case dtype of
                         None \<Rightarrow> new_series st (Inr p)
                       | Some d \<Rightarrow> new_series st (Series_cast N p d True)))
               else (Inl (PyExc ValueError ''Series constructor not called properly.''), st)
           | Some (ValSequence xs) \<Rightarrow> new_series st (sequence_to_pyseries N name2 xs dtype strict)
           | Some (ValPandas a) \<Rightarrow>
               if pandas_available C then new_series st (pandas_to_pyseries C name2 a)
               else (Inl (PyExc ValueError ''Series constructor not called properly.''), st)
           | Some (ValOther a) \<Rightarrow>
               (Inl (PyExc ValueError ''Series constructor not called properly.''), st)))"

text \<open>Converters that are not installed, to run the model on sequences and columns.\<close>

definition no_converters :: "('v, unit) converters" where
  "no_converters =
     \<lparr>pyarrow_available = False, numpy_available = False, pandas_available = False,
      arrow_to_pyseries = (\<lambda>name a. Inl (PyExc (OtherException ''ImportError'') ''pyarrow'')),
      numpy_to_pyseries = (\<lambda>name a strict nan. Inl (PyExc (OtherException ''ImportError'') ''numpy'')),
      pandas_to_pyseries = (\<lambda>name a. Inl (PyExc (OtherException ''ImportError'') ''pandas''))\<rparr>"

section \<open>\<open>Series._pos_idxs\<close>: index columns for a gather\<close>

text \<open>
  An index column is a column of integers with nulls, \<open>int option pyseries\<close>; Python
  integers are unbounded.
\<close>

subsection \<open>Kernels on integer columns\<close>

text \<open>
  Modelled from the spec: \<open>min\<close>, \<open>max\<close>, \<open>cast\<close> and the \<open>when/then/otherwise\<close>
  expression are compiled code. On integer columns they are taken as the specification
  describes them. \<open>min\<close> and \<open>max\<close> skip nulls and give Python's \<open>None\<close> when no
  value is left. A cast to an integer dtype keeps name and values when every value is in
  the range of that dtype; otherwise it raises under \<open>strict\<close> and puts null for the
  values out of range without it (section 4.1). Only integer dtypes are covered: a cast
  to any other dtype is answered by an exception.
  \<open>when(idxs < 0).then(n + idxs).otherwise(idxs)\<close> replaces every negative value
  \<open>v\<close> by \<open>n + v\<close> and keeps the other values and the nulls (section 4.4); the name of
  the column it gives is not used by a gather and is left as it was.
\<close>

fun non_null :: "'a option list \<Rightarrow> 'a list" where
  "non_null [] = []"
| "non_null (None # xs) = non_null xs"
| "non_null (Some x # xs) = x # non_null xs"

definition series_max :: "int option pyseries \<Rightarrow> int option" where
  "series_max s = (case non_null (ps_values s) of [] \<Rightarrow> None | x # xs \<Rightarrow> Some (fold max xs x))"

definition series_min :: "int option pyseries \<Rightarrow> int option" where
  "series_min s = (case non_null (ps_values s) of [] \<Rightarrow> None | x # xs \<Rightarrow> Some (fold min xs x))"

fun int_bounds :: "dtype \<Rightarrow> (int \<times> int) option" where
  "int_bounds Int8 = Some (- (2 ^ 7), 2 ^ 7)"
| "int_bounds Int16 = Some (- (2 ^ 15), 2 ^ 15)"
| "int_bounds Int32 = Some (- (2 ^ 31), 2 ^ 31)"
| "int_bounds Int64 = Some (- (2 ^ 63), 2 ^ 63)"
| "int_bounds UInt8 = Some (0, 2 ^ 8)"
| "int_bounds UInt16 = Some (0, 2 ^ 16)"
| "int_bounds UInt32 = Some (0, 2 ^ 32)"
| "int_bounds UInt64 = Some (0, 2 ^ 64)"
| "int_bounds d = None"

definition fits :: "int \<times> int \<Rightarrow> int option \<Rightarrow> bool" where
  "fits b v = (case v of None \<Rightarrow> True | Some x \<Rightarrow> fst b \<le> x \<and> x < snd b)"

definition cast_int_column ::
  "int option pyseries \<Rightarrow> dtype \<Rightarrow> bool \<Rightarrow> pyexc + int option pyseries" where
  "cast_int_column s d strict =
     (case int_bounds d of
        None \<Rightarrow> Inl (PyExc NotImplementedError ''cast outside the integer kernel'')
      | Some b \<Rightarrow>
          if list_all (fits b) (ps_values s) then
            Inr \<lparr>ps_name = ps_name s, ps_dtype = d, ps_values = ps_values s\<rparr>
          else if strict then
            Inl (PyExc (OtherException ''ComputeError'') ''strict conversion failed: value out of range'')
          else
            Inr \<lparr>ps_name = ps_name s, ps_dtype = d,
                 ps_values = map (\<lambda>v. if fits b v then v else None) (ps_values s)\<rparr>)"

definition to_positive :: "int \<Rightarrow> int \<Rightarrow> int" where
  "to_positive n v = (if v < 0 then n + v else v)"

definition when_negative_add :: "int \<Rightarrow> int option pyseries \<Rightarrow> int option pyseries" where
  "when_negative_add n idxs = idxs\<lparr>ps_values := map (map_option (to_positive n)) (ps_values idxs)\<rparr>"

text \<open>
  Python's comparison of the result of \<open>min()\<close> or \<open>max()\<close> with an integer: \<open>None\<close>
  cannot be ordered and raises a \<open>TypeError\<close>, whose text names the operator and the
  two types in single quotes.
\<close>

definition quoted :: "string \<Rightarrow> string" where
  "quoted s = [CHR 0x27] @ s @ [CHR 0x27]"

definition not_supported :: "string \<Rightarrow> pyexc" where
  "not_supported operator =
     PyExc TypeError
       (quoted operator @ '' not supported between instances of '' @ quoted ''NoneType''
          @ '' and '' @ quoted ''int'')"

definition py_ge :: "int option \<Rightarrow> int \<Rightarrow> pyexc + bool" where
  "py_ge a b = (case a of None \<Rightarrow> Inl (not_supported ''>='') | Some x \<Rightarrow> Inr (x \<ge> b))"

definition py_lt :: "int option \<Rightarrow> int \<Rightarrow> pyexc + bool" where
  "py_lt a b = (case a of None \<Rightarrow> Inl (not_supported ''<'') | Some x \<Rightarrow> Inr (x < b))"

definition bind_exc :: "pyexc + 'a \<Rightarrow> ('a \<Rightarrow> pyexc + 'b) \<Rightarrow> pyexc + 'b" where
  "bind_exc r f = (case r of Inl e \<Rightarrow> Inl e | Inr x \<Rightarrow> f x)"

definition raise_if :: "bool \<Rightarrow> pyexc \<Rightarrow> pyexc + unit" where
  "raise_if b e = (if b then Inl e else Inr ())"

subsection \<open>numpy arrays of integers\<close>

text \<open>
  A numpy array as far as \<open>_pos_idxs\<close> reads it: its dtype, the number of its
  dimensions and, for an integer array of one dimension, its values. \<open>max\<close> and
  \<open>min\<close> of an array without elements raise numpy's \<open>ValueError\<close>. \<open>astype\<close> to a
  wider integer type keeps the values; in \<open>np.where(idxs < 0, n + idxs, idxs)\<close> the sum
  is taken on the values as integers.

  The dtype of an array is a dtype object. It is equal to the scalar type it stands for,
  so \<open>idxs.dtype == np.int64\<close> and the test \<open>in\<close> on a tuple of scalar types, which
  compares with \<open>==\<close>, are tests of the dtype. Its hash is not the hash of the scalar
  type: \<open>idxs.dtype in {np.int64, np.uint64}\<close>, membership in a set, is a lookup by hash
  and finds nothing, whatever the dtype is.
\<close>

datatype np_dtype =
    np_int8 | np_int16 | np_int32 | np_int64
  | np_uint8 | np_uint16 | np_uint32 | np_uint64
  | np_bool | np_float64 | np_object

record ndarray =
  nd_dtype :: np_dtype
  nd_ndim :: nat
  nd_data :: "int list"

definition np_dtype_in_set :: "np_dtype \<Rightarrow> np_dtype list \<Rightarrow> bool" where
  "np_dtype_in_set d scalar_types = False"

definition np_dtype_in_tuple :: "np_dtype \<Rightarrow> np_dtype list \<Rightarrow> bool" where
  "np_dtype_in_tuple d scalar_types = (d \<in> set scalar_types)"

fun np_kind :: "np_dtype \<Rightarrow> char" where
  "np_kind np_int8 = CHR ''i''"
| "np_kind np_int16 = CHR ''i''"
| "np_kind np_int32 = CHR ''i''"
| "np_kind np_int64 = CHR ''i''"
| "np_kind np_uint8 = CHR ''u''"
| "np_kind np_uint16 = CHR ''u''"
| "np_kind np_uint32 = CHR ''u''"
| "np_kind np_uint64 = CHR ''u''"
| "np_kind np_bool = CHR ''b''"
| "np_kind np_float64 = CHR ''f''"
| "np_kind np_object = CHR ''O''"

definition np_max :: "ndarray \<Rightarrow> pyexc + int" where
  "np_max a =
     (case nd_data a of
        [] \<Rightarrow> Inl (PyExc ValueError ''zero-size array to reduction operation maximum which has no identity'')
      | x # xs \<Rightarrow> Inr (fold max xs x))"

definition np_min :: "ndarray \<Rightarrow> pyexc + int" where
  "np_min a =
     (case nd_data a of
        [] \<Rightarrow> Inl (PyExc ValueError ''zero-size array to reduction operation minimum which has no identity'')
      | x # xs \<Rightarrow> Inr (fold min xs x))"

definition np_astype :: "ndarray \<Rightarrow> np_dtype \<Rightarrow> ndarray" where
  "np_astype a t = a\<lparr>nd_dtype := t\<rparr>"

definition np_where_negative_add :: "int \<Rightarrow> ndarray \<Rightarrow> ndarray" where
  "np_where_negative_add n a = a\<lparr>nd_data := map (to_positive n) (nd_data a)\<rparr>"

fun np_to_dtype :: "np_dtype \<Rightarrow> dtype" where
  "np_to_dtype np_int8 = Int8"
| "np_to_dtype np_int16 = Int16"
| "np_to_dtype np_int32 = Int32"
| "np_to_dtype np_int64 = Int64"
| "np_to_dtype np_uint8 = UInt8"
| "np_to_dtype np_uint16 = UInt16"
| "np_to_dtype np_uint32 = UInt32"
| "np_to_dtype np_uint64 = UInt64"
| "np_to_dtype np_bool = Boolean"
| "np_to_dtype np_float64 = Float64"
| "np_to_dtype np_object = Object"

text \<open>
  \<open>Series(name, idxs, dtype=idx_type)\<close> on a numpy array of integers of one dimension:
  \<open>numpy_to_pyseries\<close> builds the column of the matching dtype, then \<open>__init__\<close> casts
  it strictly to the dtype given.
\<close>

definition numpy_int_to_pyseries :: "string \<Rightarrow> ndarray \<Rightarrow> int option pyseries" where
  "numpy_int_to_pyseries name a =
     \<lparr>ps_name = name, ps_dtype = np_to_dtype (nd_dtype a), ps_values = map Some (nd_data a)\<rparr>"

definition Series_from_numpy_idx :: "string \<Rightarrow> ndarray \<Rightarrow> dtype \<Rightarrow> pyexc + int option pyseries" where
  "Series_from_numpy_idx name a dtype = cast_int_column (numpy_int_to_pyseries name a) dtype True"

subsection \<open>\<open>_pos_idxs\<close> and the gather of \<open>__getitem__\<close>\<close>

datatype idx_arg = IdxSeries "int option pyseries" | IdxNumpy ndarray

text \<open>
  \<open>idx_type\<close> is \<open>get_idx_type()\<close>, UInt32 or UInt64 with the build; \<open>n\<close> is
  \<open>self.len()\<close>.
\<close>

definition pos_idxs_series :: "dtype \<Rightarrow> int \<Rightarrow> int option pyseries \<Rightarrow> pyexc + int option pyseries" where
  "pos_idxs_series idx_type n idxs =
     (if ps_dtype idxs = idx_type then Inr idxs
      else if ps_dtype idxs \<in> set [UInt8, UInt16, (if idx_type = UInt32 then UInt64 else UInt32),
                                   Int8, Int16, Int32, Int64] then
        bind_exc
          (if idx_type = UInt32 then
             bind_exc
               (if ps_dtype idxs \<in> set [Int64, UInt64] then
                  bind_exc (py_ge (series_max idxs) (2 ^ 32))
                    (\<lambda>too_big. raise_if too_big
                       (PyExc ValueError ''Index positions should be smaller than 2^32.''))
                else Inr ())
               (\<lambda>_. if ps_dtype idxs = Int64 then
                       bind_exc (py_lt (series_min idxs) (- (2 ^ 32)))
                         (\<lambda>too_small. raise_if too_small
                            (PyExc ValueError ''Index positions should be bigger than -2^32 + 1.''))
                     else Inr ())
           else Inr ())
          (\<lambda>_. bind_exc
             (if ps_dtype idxs \<in> set [Int8, Int16, Int32, Int64] then
                bind_exc (py_lt (series_min idxs) 0)
                  (\<lambda>negative.
                     if negative then
                       bind_exc
                         (if idx_type = UInt32 then
                            (if ps_dtype idxs \<in> set [Int8, Int16] then cast_int_column idxs Int32 True
                             else Inr idxs)
                          else
                            (if ps_dtype idxs \<in> set [Int8, Int16, Int32] then
                               cast_int_column idxs Int64 True
                             else Inr idxs))
                         (\<lambda>idxs'. Inr (when_negative_add n idxs'))
                     else Inr idxs)
              else Inr idxs)
             (\<lambda>idxs'. cast_int_column idxs' idx_type True))
      else Inl (PyExc NotImplementedError ''Unsupported idxs datatype.''))"

definition pos_idxs_numpy :: "dtype \<Rightarrow> int \<Rightarrow> ndarray \<Rightarrow> pyexc + int option pyseries" where
  "pos_idxs_numpy idx_type n idxs =
     (if nd_ndim idxs \<noteq> 1 then
        Inl (PyExc ValueError ''Only 1D numpy array is supported as index.'')
      else if np_kind (nd_dtype idxs) \<in> set [CHR ''i'', CHR ''u''] then
        bind_exc
          (if idx_type = UInt32 then
             bind_exc
               (if np_dtype_in_set (nd_dtype idxs) [np_int64, np_uint64] then
                  bind_exc (np_max idxs)
                    (\<lambda>m. raise_if (m \<ge> 2 ^ 32)
                       (PyExc ValueError ''Index positions should be smaller than 2^32.''))
                else Inr ())
               (\<lambda>_. if nd_dtype idxs = np_int64 then
                       bind_exc (np_min idxs)
                         (\<lambda>m. raise_if (m < - (2 ^ 32))
                            (PyExc ValueError ''Index positions should be bigger than -2^32 + 1.''))
                     else Inr ())
           else Inr ())
          (\<lambda>_. bind_exc
             (if np_kind (nd_dtype idxs) = CHR ''i'' then
                bind_exc (np_min idxs)
                  (\<lambda>m. if m < 0 then
                         Inr (np_where_negative_add n
                                (if idx_type = UInt32 then
                                   (if np_dtype_in_tuple (nd_dtype idxs) [np_int8, np_int16] then
                                      np_astype idxs np_int32
                                    else idxs)
                                 else
                                   (if np_dtype_in_tuple (nd_dtype idxs) [np_int8, np_int16, np_int32] then
                                      np_astype idxs np_int64
                                    else idxs)))
                       else Inr idxs)
              else Inr idxs)
             (\<lambda>idxs'. Series_from_numpy_idx '''' idxs' idx_type))
      else Inl (PyExc NotImplementedError ''Unsupported idxs datatype.''))"

definition Series_pos_idxs :: "dtype \<Rightarrow> bool \<Rightarrow> int \<Rightarrow> idx_arg \<Rightarrow> pyexc + int option pyseries" where
  "Series_pos_idxs idx_type numpy_installed n idxs =
     (case idxs of
        IdxSeries s \<Rightarrow> pos_idxs_series idx_type n s
      | IdxNumpy a \<Rightarrow>
          if numpy_installed then pos_idxs_numpy idx_type n a
          else Inl (PyExc NotImplementedError ''Unsupported idxs datatype.''))"

text \<open>
  The branches of \<open>Series.__getitem__\<close> on a numpy array or a \<open>Series\<close>. The native
  \<open>take_with_series\<close> and \<open>filter\<close> are parameters (\<open>filter_item\<close> builds the mask of a
  boolean array or column and filters with it).
\<close>

definition Series_getitem_idx ::
  "('v pyseries \<Rightarrow> int option pyseries \<Rightarrow> pyexc + 'v pyseries) \<Rightarrow>
   ('v pyseries \<Rightarrow> idx_arg \<Rightarrow> pyexc + 'v pyseries) \<Rightarrow>
   dtype \<Rightarrow> bool \<Rightarrow> 'v pyseries \<Rightarrow> idx_arg \<Rightarrow> pyexc + 'v pyseries" where
  "Series_getitem_idx take_with_series filter_item idx_type numpy_installed self item =
     (let n = int (length (ps_values self));
          unsupported = Inl (PyExc ValueError ''Cannot __getitem__ on Series with this argument'')
      in case item of
        IdxNumpy a \<Rightarrow>
          if numpy_installed then
            if nd_ndim a \<noteq> 1 then
              Inl (PyExc ValueError ''Only a 1D-Numpy array is supported as index.'')
            else if np_kind (nd_dtype a) \<in> set [CHR ''i'', CHR ''u''] then
              bind_exc (Series_pos_idxs idx_type numpy_installed n item)
                (\<lambda>idx. wrap_result (take_with_series self idx))
            else if nd_dtype a = np_bool then wrap_result (filter_item self item)
            else unsupported
          else unsupported
      | IdxSeries s \<Rightarrow>
          if ps_dtype s = Boolean then wrap_result (filter_item self item)
          else if ps_dtype s = UInt32 then wrap_result (take_with_series self s)
          else if ps_dtype s \<in> set [UInt8, UInt16, UInt64, Int8, Int16, Int32, Int64] then
            bind_exc (Series_pos_idxs idx_type numpy_installed n item)
              (\<lambda>idx. wrap_result (take_with_series self idx))
          else unsupported)"

text \<open>
  Modelled from the spec: a gather kernel, to run the model. It selects the elements at
  the index positions (glossary, "Gather/Take"); a position outside the column is an
  error and a null index is not covered.
\<close>

definition list_take :: "'v pyseries \<Rightarrow> int option pyseries \<Rightarrow> pyexc + 'v pyseries" where
  "list_take s idx =
     (if list_all (\<lambda>i. case i of None \<Rightarrow> False | Some k \<Rightarrow> 0 \<le> k \<and> k < int (length (ps_values s)))
           (ps_values idx) then
        Inr (s\<lparr>ps_values := map (\<lambda>i. ps_values s ! nat (the i)) (ps_values idx)\<rparr>)
      else Inl (PyExc (OtherException ''ComputeError'') ''index out of bounds''))"

definition no_filter :: "'v pyseries \<Rightarrow> idx_arg \<Rightarrow> pyexc + 'v pyseries" where
  "no_filter s item = Inl (PyExc NotImplementedError ''filter outside the gather kernel'')"

text \<open>The values of an integer column lie in the range of its dtype.\<close>

definition column_in_range :: "int option pyseries \<Rightarrow> bool" where
  "column_in_range s =
     (case int_bounds (ps_dtype s) of None \<Rightarrow> False | Some b \<Rightarrow> list_all (fits b) (ps_values s))"

section \<open>Properties of \<open>Series.sample\<close>\<close>

text \<open>
  Claim C6. When both \<open>n\<close> and \<open>frac\<close> are given, \<open>Series.sample\<close> raises the
  \<open>ValueError\<close> "n and frac were both supplied", whatever the kernels are: neither
  kernel's result is used, so no sampling takes place.
\<close>

theorem sample_both_supplied_raises:
  "Series_sample sample_n sample_frac self (Some n) (Some frac') with_replacement shuffle seed
     = Inl (PyExc ValueError ''n and frac were both supplied'')"
  by (simp add: Series_sample_def)

theorem sample_both_supplied_raises_witness:
  "Series_sample head_sample_n head_sample_frac
      \<lparr>ps_name = ''a'', ps_dtype = Int64, ps_values = [1, 2, 3, 4, 5 :: int]\<rparr>
      (Some 2) (Some (1 / 2)) False False (Some 0)
     = Inl (PyExc ValueError ''n and frac were both supplied'')"
  by (rule sample_both_supplied_raises)

text \<open>
  Claim C9, as amended. When neither \<open>n\<close> nor \<open>frac\<close> is given, \<open>Series.sample\<close>
  raises nothing of its own: \<open>n\<close> becomes 1 and the call is the sample-by-count kernel's
  call with count 1, whose outcome is returned as it is: the one-element sample when the
  kernel draws one, the kernel's error otherwise.
\<close>

theorem sample_neither_defaults_to_one:
  "Series_sample sample_n sample_frac self None None with_replacement shuffle seed
     = sample_n self 1 with_replacement shuffle seed"
  by (cases "sample_n self 1 with_replacement shuffle seed")
     (simp_all add: Series_sample_def wrap_result_def wrap_s_def)

theorem sample_neither_defaults_to_one_witness:
  "Series_sample head_sample_n head_sample_frac
      \<lparr>ps_name = ''a'', ps_dtype = Int64, ps_values = [1, 2, 3, 4, 5 :: int]\<rparr>
      None None False False (Some 0)
     = Inr \<lparr>ps_name = ''a'', ps_dtype = Int64, ps_values = [1]\<rparr>"
  by (simp add: sample_neither_defaults_to_one head_sample_n_def)

text \<open>
  As stated, claim C9 promises a one-element sample from every column. A column without
  values has none to give: on it the call with neither \<open>n\<close> nor \<open>frac\<close> raises the
  error of the kernel.
\<close>

theorem sample_neither_on_empty_column_raises:
  "Series_sample head_sample_n head_sample_frac
      \<lparr>ps_name = ''a'', ps_dtype = Int64, ps_values = ([] :: int list)\<rparr>
      None None False False None
     = Inl (PyExc RuntimeError ''cannot take a larger sample than the total population'')"
  by (simp add: Series_sample_def head_sample_n_def wrap_result_def)

section \<open>Properties of the arithmetic operators\<close>

lemma wrap_result_id: "wrap_result r = r"
  by (cases r) (simp_all add: wrap_result_def wrap_s_def)

lemma Series_arithmetic_float_division:
  assumes "is_float c"
  shows "Series_arithmetic N c other ''div'' ''div_<>'' = float_division N c other"
  using assms
  by (auto simp: Series_arithmetic_def float_division_def wrap_result_id
      split: operand.splits sum.splits option.splits)

lemma float_division_dtype:
  assumes fl: "ps_dtype a = Float64"
    and binop_dtype: "\<And>b r. kernel_binop N ''div'' a b = Inr r \<Longrightarrow> ps_dtype r = Float64"
    and ffi_dtype: "\<And>f x r. get_ffi_func N ''div_<>'' Float64 a = Some f \<Longrightarrow> f x = Inr r
                      \<Longrightarrow> ps_dtype r = Float64"
    and res: "float_division N a other = Inr r"
  shows "ps_dtype r = Float64"
proof (cases other)
  case (OSeries b)
  with res have "kernel_binop N ''div'' a b = Inr r"
    by (simp add: float_division_def)
  then show ?thesis by (rule binop_dtype)
next
  case (OValue x)
  with res fl obtain x' f where
    "get_ffi_func N ''div_<>'' Float64 a = Some f" and "f x' = Inr r"
    by (auto simp: float_division_def split: sum.splits option.splits)
  then show ?thesis by (rule ffi_dtype)
qed

lemma exact_native_fields:
  "kernel_cast exact_native = exact_cast"
  "kernel_binop exact_native ''div'' = exact_div"
  "type_of exact_native = pyval_type"
  "kernel_getattr exact_native obj fname =
     (if fname = ''div_f64'' then
        Some (\<lambda>x. exact_div obj (obj\<lparr>ps_values := map (\<lambda>_. x) (ps_values obj)\<rparr>))
      else None)"
  "dtype_to_ffiname exact_native = exact_ffiname"
  "maybe_cast exact_native x d tu
     = Inr (if d = Float64 then (case to_float x of Some w \<Rightarrow> w | None \<Rightarrow> x) else x)"
  "kernel_time_unit exact_native a = None"
  by (simp_all add: exact_native_def)

lemma exact_cast_dtype: "exact_cast a Float64 True = Inr r \<Longrightarrow> ps_dtype r = Float64"
  by (auto simp: exact_cast_def split: option.splits)

lemma exact_div_dtype:
  "ps_dtype a = Float64 \<Longrightarrow> exact_div a b = Inr r \<Longrightarrow> ps_dtype r = Float64"
  by (auto simp: exact_div_def split: option.splits if_splits)

text \<open>
  Claim C3. On a column whose dtype is Date, Datetime, Duration or Time the operators
  \<open>*\<close>, \<open>/\<close> and \<open>%\<close> (and the reflected \<open>*\<close> and \<open>%\<close>) raise a \<open>ValueError\<close>
  for every operand and every kernel; nothing is computed.
\<close>

theorem datelike_operators_raise:
  assumes "ps_dtype self \<in> {Date, Datetime, Duration, Time}"
  shows "Series_mul N self other
           = Inl (PyExc ValueError ''first cast to integer before multiplying datelike dtypes'')
       \<and> Series_truediv N self other
           = Some (Inl (PyExc ValueError ''first cast to integer before dividing datelike dtypes''))
       \<and> Series_mod N self other
           = Inl (PyExc ValueError ''first cast to integer before applying modulo on datelike dtypes'')
       \<and> Series_rmul N self other
           = Inl (PyExc ValueError ''first cast to integer before multiplying datelike dtypes'')
       \<and> Series_rmod N self other
           = Inl (PyExc ValueError ''first cast to integer before applying modulo on datelike dtypes'')"
proof -
  from assms have d: "is_datelike self"
    by (auto simp: is_datelike_def)
  have "Series_truediv N self other
          = Some (Inl (PyExc ValueError ''first cast to integer before dividing datelike dtypes''))"
    by (subst Series_truediv.simps) (simp add: d)
  with d show ?thesis
    by (simp add: Series_mul_def Series_mod_def Series_rmul_def Series_rmod_def)
qed

theorem datelike_operators_raise_witness:
  "Series_mul exact_native \<lparr>ps_name = ''d'', ps_dtype = Date, ps_values = [PInt 18628]\<rparr> (OValue (PInt 2))
     = Inl (PyExc ValueError ''first cast to integer before multiplying datelike dtypes'')
   \<and> Series_truediv exact_native \<lparr>ps_name = ''d'', ps_dtype = Date, ps_values = [PInt 18628]\<rparr> (OValue (PInt 2))
     = Some (Inl (PyExc ValueError ''first cast to integer before dividing datelike dtypes''))
   \<and> Series_mod exact_native \<lparr>ps_name = ''d'', ps_dtype = Date, ps_values = [PInt 18628]\<rparr> (OValue (PInt 2))
     = Inl (PyExc ValueError ''first cast to integer before applying modulo on datelike dtypes'')"
  using datelike_operators_raise
    [of "\<lparr>ps_name = ''d'', ps_dtype = Date, ps_values = [PInt 18628]\<rparr>" exact_native "OValue (PInt 2)"]
  by simp

text \<open>
  Claim C2. On a column that is neither float nor date-like, \<open>/\<close> first casts the column
  to Float64 (strictly) and then divides the cast column: by the native \<open>div\<close> for a
  \<open>Series\<close> operand, by the method \<open>div_<>\<close> of the cast column for any other
  operand; a failing cast is raised as it is. Given kernels that keep their contract (a
  cast to Float64 gives a Float64 column, and so do the \<open>div\<close> kernel and the
  \<open>div_<>\<close> method of a Float64 column) every result of \<open>/\<close> has dtype Float64, also
  for integer input.
\<close>

theorem truediv_casts_to_Float64_first:
  assumes nf: "\<not> is_float self" and nd: "\<not> is_datelike self"
    and cast_dtype: "\<And>a r. kernel_cast N a Float64 True = Inr r \<Longrightarrow> ps_dtype r = Float64"
    and binop_dtype: "\<And>a b r. ps_dtype a = Float64 \<Longrightarrow> kernel_binop N ''div'' a b = Inr r
                        \<Longrightarrow> ps_dtype r = Float64"
    and ffi_dtype: "\<And>a f x r. ps_dtype a = Float64 \<Longrightarrow> get_ffi_func N ''div_<>'' Float64 a = Some f
                        \<Longrightarrow> f x = Inr r \<Longrightarrow> ps_dtype r = Float64"
  shows "Series_truediv N self other =
           (case kernel_cast N self Float64 True of
              Inl e \<Rightarrow> Some (Inl e)
            | Inr c \<Rightarrow>
                Some (case other of
                        OSeries b \<Rightarrow> kernel_binop N ''div'' c b
                      | OValue x \<Rightarrow>
                          (case maybe_cast N x Float64 (kernel_time_unit N c) of
                             Inl e \<Rightarrow> Inl e
                           | Inr x' \<Rightarrow>
                               (case kernel_getattr N c
                                       (replace_placeholder ''div_<>'' (dtype_to_ffiname N Float64)) of
                                  None \<Rightarrow> Inl (PyExc ValueError (arith_error_text N Float64 x'))
                                | Some f \<Rightarrow> f x'))))
       \<and> (\<forall>r. Series_truediv N self other = Some (Inr r) \<longrightarrow> ps_dtype r = Float64)"
proof -
  have eq: "Series_truediv N self other =
           (case kernel_cast N self Float64 True of
              Inl e \<Rightarrow> Some (Inl e)
            | Inr c \<Rightarrow> Some (float_division N c other))"
  proof (cases "kernel_cast N self Float64 True")
    case (Inl e)
    then show ?thesis
      by (subst Series_truediv.simps) (simp add: nf nd Series_cast_def wrap_result_id)
  next
    case (Inr c)
    then have "ps_dtype c = Float64" by (rule cast_dtype)
    then have fl: "is_float c" and ndl: "\<not> is_datelike c"
      by (simp_all add: is_float_def is_datelike_def)
    have "Series_truediv N self other = Series_truediv N c other"
      by (subst Series_truediv.simps) (simp add: nf nd Series_cast_def wrap_result_id Inr)
    also have "\<dots> = Some (Series_arithmetic N c other ''div'' ''div_<>'')"
      by (subst Series_truediv.simps) (simp add: fl ndl)
    also have "\<dots> = Some (float_division N c other)"
      by (simp add: Series_arithmetic_float_division [OF fl])
    finally show ?thesis by (simp add: Inr)
  qed
  have explicit: "float_division N c other =
          (case other of
             OSeries b \<Rightarrow> kernel_binop N ''div'' c b
           | OValue x \<Rightarrow>
               (case maybe_cast N x Float64 (kernel_time_unit N c) of
                  Inl e \<Rightarrow> Inl e
                | Inr x' \<Rightarrow>
                    (case kernel_getattr N c
                            (replace_placeholder ''div_<>'' (dtype_to_ffiname N Float64)) of
                       None \<Rightarrow> Inl (PyExc ValueError (arith_error_text N Float64 x'))
                     | Some f \<Rightarrow> f x')))"
    if "kernel_cast N self Float64 True = Inr c" for c
  proof -
    from that have "ps_dtype c = Float64" by (rule cast_dtype)
    then show ?thesis
      by (auto simp: float_division_def get_ffi_func_def Let_def
          split: operand.splits sum.splits option.splits)
  qed
  have first: "Series_truediv N self other =
           (case kernel_cast N self Float64 True of
              Inl e \<Rightarrow> Some (Inl e)
            | Inr c \<Rightarrow>
                Some (case other of
                        OSeries b \<Rightarrow> kernel_binop N ''div'' c b
                      | OValue x \<Rightarrow>
                          (case maybe_cast N x Float64 (kernel_time_unit N c) of
                             Inl e \<Rightarrow> Inl e
                           | Inr x' \<Rightarrow>
                               (case kernel_getattr N c
                                       (replace_placeholder ''div_<>'' (dtype_to_ffiname N Float64)) of
                                  None \<Rightarrow> Inl (PyExc ValueError (arith_error_text N Float64 x'))
                                | Some f \<Rightarrow> f x'))))"
  proof (cases "kernel_cast N self Float64 True")
    case (Inl e)
    with eq show ?thesis by simp
  next
    case (Inr c)
    with eq explicit [OF Inr] show ?thesis by simp
  qed
  have "ps_dtype r = Float64" if res: "Series_truediv N self other = Some (Inr r)" for r
  proof (cases "kernel_cast N self Float64 True")
    case (Inl e)
    with eq res show ?thesis by simp
  next
    case (Inr c)
    then have c: "ps_dtype c = Float64" by (rule cast_dtype)
    from eq res Inr have ar: "float_division N c other = Inr r" by simp
    show ?thesis
      by (rule float_division_dtype [OF c _ _ ar])
         (auto intro: binop_dtype [OF c] ffi_dtype [OF c])
  qed
  with first show ?thesis by blast
qed

text \<open>
  The witness divides the integer column 1, 2, 3 by the column 2, 2, 2 and by the
  integer 2.
\<close>

theorem truediv_casts_to_Float64_first_witness:
  "Series_truediv exact_native
      \<lparr>ps_name = ''a'', ps_dtype = Int64, ps_values = [PInt 1, PInt 2, PInt 3]\<rparr>
      (OSeries \<lparr>ps_name = ''b'', ps_dtype = Int64, ps_values = [PInt 2, PInt 2, PInt 2]\<rparr>)
     = Some (Inr \<lparr>ps_name = ''a'', ps_dtype = Float64,
                  ps_values = [PFloat 0.5, PFloat 1.0, PFloat 1.5]\<rparr>)
   \<and> Series_truediv exact_native
      \<lparr>ps_name = ''a'', ps_dtype = Int64, ps_values = [PInt 1, PInt 2, PInt 3]\<rparr>
      (OValue (PInt 2))
     = Some (Inr \<lparr>ps_name = ''a'', ps_dtype = Float64,
                  ps_values = [PFloat 0.5, PFloat 1.0, PFloat 1.5]\<rparr>)"
proof -
  let ?s = "\<lparr>ps_name = ''a'', ps_dtype = Int64, ps_values = [PInt 1, PInt 2, PInt 3]\<rparr>"
  have nf: "\<not> is_float ?s" and nd: "\<not> is_datelike ?s"
    by (simp_all add: is_float_def is_datelike_def)
  have c: "\<And>a r. kernel_cast exact_native a Float64 True = Inr r \<Longrightarrow> ps_dtype r = Float64"
    by (simp add: exact_native_fields exact_cast_dtype)
  have b: "\<And>a b r. ps_dtype a = Float64 \<Longrightarrow> kernel_binop exact_native ''div'' a b = Inr r
                        \<Longrightarrow> ps_dtype r = Float64"
    by (simp add: exact_native_fields exact_div_dtype)
  have f: "\<And>a f x r. ps_dtype a = Float64 \<Longrightarrow> get_ffi_func exact_native ''div_<>'' Float64 a = Some f
                        \<Longrightarrow> f x = Inr r \<Longrightarrow> ps_dtype r = Float64"
    by (auto simp: get_ffi_func_def exact_native_fields exact_div_dtype split: if_splits)
  note inst = truediv_casts_to_Float64_first [where N = exact_native and self = ?s, OF nf nd c b f]
  have "Series_truediv exact_native ?s
          (OSeries \<lparr>ps_name = ''b'', ps_dtype = Int64, ps_values = [PInt 2, PInt 2, PInt 2]\<rparr>)
        = Some (Inr \<lparr>ps_name = ''a'', ps_dtype = Float64,
                     ps_values = [PFloat 0.5, PFloat 1.0, PFloat 1.5]\<rparr>)"
    using inst [where other = "OSeries \<lparr>ps_name = ''b'', ps_dtype = Int64,
                                         ps_values = [PInt 2, PInt 2, PInt 2]\<rparr>"]
    by (simp add: exact_native_fields exact_cast_def exact_div_def)
  moreover have "Series_truediv exact_native ?s (OValue (PInt 2))
        = Some (Inr \<lparr>ps_name = ''a'', ps_dtype = Float64,
                     ps_values = [PFloat 0.5, PFloat 1.0, PFloat 1.5]\<rparr>)"
    using inst [where other = "OValue (PInt 2)"]
    by (simp add: exact_native_fields exact_cast_def exact_div_def)
  ultimately show ?thesis by simp
qed

section \<open>Properties of selector inversion\<close>

text \<open>
  Claim C5. For a selector that is not of type "all", "first" or "last" and is not
  inverted, \<open>~\<close> gives an inverted selector whose expression is all columns excluding
  the selector's captured parameter list (its raw list, or the values of its parameters
  when no raw list was stored). Inversion takes the selector alone, no evaluation
  context. A second \<open>~\<close> gives a selector, not inverted, whose expression selects the
  columns of that same captured list.
\<close>

theorem invert_uses_captured_params:
  assumes "attrs_type s \<notin> {''all'', ''first'', ''last''}" and "\<not> inverted s"
  shows "\<exists>s' s''. selector_invert s = Inr s'
           \<and> pyexpr s' = Exclude_star F_all (captured_params s)
           \<and> inverted s'
           \<and> attrs_raw_params s' = Some (captured_params s)
           \<and> selector_invert s' = Inr s''
           \<and> pyexpr s'' = F_col_star (captured_params s)
           \<and> \<not> inverted s''
           \<and> attrs_raw_params s'' = Some (captured_params s)
           \<and> attrs_type s'' = attrs_type s"
proof -
  define raw where "raw = captured_params s"
  define ps where "ps = or_empty (attrs_params s)"
  have raw_eq: "(if or_empty (attrs_raw_params s) = [] \<and> ps \<noteq> [] then map snd ps
                 else or_empty (attrs_raw_params s)) = raw"
    by (auto simp: raw_def ps_def captured_params_def or_empty_def
        split: option.splits list.splits)
  have keep: "(if raw = [] \<and> ps \<noteq> [] then map snd ps else raw) = raw"
    by (auto simp: raw_def ps_def captured_params_def or_empty_def
        split: option.splits list.splits)
  define s' where "s' = selector_proxy_init (Exclude_star F_all raw) (attrs_type s) (Some ps)
                          (Some raw) True"
  define s'' where "s'' = selector_proxy_init (F_col_star raw) (attrs_type s) (Some ps)
                          (Some raw) False"
  from assms have ty: "attrs_type s \<noteq> ''all''" "attrs_type s \<notin> set [''first'', ''last'']"
    by auto
  have first: "selector_invert s = Inr s'"
    unfolding selector_invert_def Let_def ps_def [symmetric]
    by (simp only: ty raw_eq assms(2) if_False s'_def not_False_eq_True)
  have s'_fields: "attrs_type s' = attrs_type s" "inverted s'" "attrs_params s' = Some ps"
    "attrs_raw_params s' = Some raw" "pyexpr s' = Exclude_star F_all raw"
    by (simp_all add: s'_def selector_proxy_init_def)
  have second: "selector_invert s' = Inr s''"
  proof -
    from keep have nofallback: "\<not> (raw = [] \<and> ps \<noteq> [])"
      by (auto split: if_splits)
    from assms have ty': "attrs_type s \<noteq> ''first''" "attrs_type s \<noteq> ''last''"
      by auto
    show ?thesis
      unfolding selector_invert_def Let_def
      using nofallback by (auto simp: s'_fields ty ty' or_empty_def s''_def)
  qed
  have s''_fields: "attrs_type s'' = attrs_type s" "\<not> inverted s''"
    "attrs_raw_params s'' = Some raw" "pyexpr s'' = F_col_star raw"
    by (simp_all add: s''_def selector_proxy_init_def)
  show ?thesis
    using first second s'_fields s''_fields unfolding raw_def by blast
qed

theorem invert_uses_captured_params_witness:
  "\<exists>s' s''. selector_invert
        \<lparr>pyexpr = F_col_star [''^(foo).*$''], inverted = False,
         attrs_raw_params = Some [''^(foo).*$''],
         attrs_params = Some [(''prefix'', ''foo'')], attrs_type = ''starts_with''\<rparr> = Inr s'
     \<and> pyexpr s' = Exclude_star F_all [''^(foo).*$'']
     \<and> selector_invert s' = Inr s''
     \<and> pyexpr s'' = F_col_star [''^(foo).*$'']"
  using invert_uses_captured_params
    [of "\<lparr>pyexpr = F_col_star [''^(foo).*$''], inverted = False,
          attrs_raw_params = Some [''^(foo).*$''],
          attrs_params = Some [(''prefix'', ''foo'')], attrs_type = ''starts_with''\<rparr>"]
  by (auto simp: captured_params_def)

section \<open>Properties of \<open>DataFrame.__getitem__\<close> on a slice\<close>

text \<open>
  Claim C10. On a slice object the guard \<open>getattr(item, "end", False)\<close> is always
  \<open>False\<close>, so the \<open>ValueError\<close> for steps larger than 1 is never raised by it; the
  step is ignored, and the result is \<open>slice(offset = start, length = stop - start)\<close>
  with \<open>start\<close> defaulting to 0 and \<open>stop\<close> to the height.
\<close>

theorem getitem_slice_ignores_step:
  "slice_getattr sl ''end'' (ABool False) = ABool False
   \<and> DataFrame_getitem K df (ItemSlice sl)
       = as_frame (df_slice K df (case sl_start sl of None \<Rightarrow> 0 | Some a \<Rightarrow> a)
                     ((case sl_stop sl of None \<Rightarrow> df_height K df | Some b \<Rightarrow> b)
                        - (case sl_start sl of None \<Rightarrow> 0 | Some a \<Rightarrow> a)))
   \<and> DataFrame_getitem K df (ItemSlice (sl\<lparr>sl_step := st\<rparr>))
       = DataFrame_getitem K df (ItemSlice sl)"
  by (simp add: slice_getattr_def DataFrame_getitem_def DataFrame_slice_def Let_def)

theorem getitem_slice_ignores_step_witness:
  "DataFrame_getitem columns_kernels
      [\<lparr>ps_name = ''a'', ps_dtype = Int64, ps_values = [10, 11, 12, 13, 14 :: int]\<rparr>]
      (ItemSlice \<lparr>sl_start = Some 0, sl_stop = Some 4, sl_step = Some 2\<rparr>)
     = Inr (Inr [\<lparr>ps_name = ''a'', ps_dtype = Int64, ps_values = [10, 11, 12, 13]\<rparr>])"
  using getitem_slice_ignores_step
    [of "\<lparr>sl_start = Some 0, sl_stop = Some 4, sl_step = Some 2\<rparr>" columns_kernels
        "[\<lparr>ps_name = ''a'', ps_dtype = Int64, ps_values = [10, 11, 12, 13, 14 :: int]\<rparr>]"]
  by (simp add: columns_kernels_def columns_slice_def as_frame_def)

section \<open>Properties of \<open>Series.append\<close>\<close>

lemma append_ok:
  "inplace_append K st self other ac = (Inr u, st1) \<Longrightarrow>
   Series_append K st self other ac = Some (Inr (), st1)"
  by (subst Series_append.simps) simp

lemma append_retry:
  "inplace_append K st self other ac = (Inl e, st1) \<Longrightarrow> already_borrowed e \<Longrightarrow>
   Series_clone K st1 other = (Inr other', st2) \<Longrightarrow>
   Series_append K st self other ac = Series_append K st2 self other' ac"
  by (subst Series_append.simps) (simp add: already_borrowed_def)

lemma append_reraise:
  "inplace_append K st self other ac = (Inl e, st1) \<Longrightarrow> \<not> already_borrowed e \<Longrightarrow>
   Series_append K st self other ac = Some (Inl e, st1)"
  by (subst Series_append.simps) (auto simp add: already_borrowed_def)

text \<open>
  A call of \<open>Series.append\<close> that returns never hands a borrow conflict to its caller,
  as long as \<open>clone\<close> raises none: every such error of the native append is caught.
\<close>

lemma append_never_borrow:
  assumes cl: "\<And>st a e st'. cell_clone K st a = (Inl e, st') \<Longrightarrow> \<not> already_borrowed e"
    and res: "Series_append K st self other ac = Some (Inl e, st')"
  shows "\<not> already_borrowed e"
proof -
  let ?P = "\<lambda>K' (st :: 'a) (self :: series) (other :: series) (ac :: bool) (y :: (pyexc + unit) \<times> 'a).
              K' = K \<longrightarrow> (\<forall>e st'. y = (Inl e, st') \<longrightarrow> \<not> already_borrowed e)"
  have "?P K st self other ac (Inl e, st')"
  proof (rule Series_append.raw_induct [where P = ?P, OF _ res], goal_cases)
    case (1 f K0 st0 self0 other0 ac0 y)
    show ?case
    proof (intro impI allI)
      fix e0 st0'
      assume k: "K0 = K" and y: "y = (Inl e0, st0')"
      obtain r st1 where run: "inplace_append K0 st0 self0 other0 ac0 = (r, st1)"
        by (cases "inplace_append K0 st0 self0 other0 ac0")
      show "\<not> already_borrowed e0"
      proof (cases r)
        case (Inr u)
        with 1(2) run y show ?thesis by simp
      next
        case (Inl e1)
        show ?thesis
        proof (cases "already_borrowed e1")
          case False
          with 1(2) run y Inl show ?thesis
            by (auto simp: already_borrowed_def split: if_splits)
        next
          case True
          obtain c st2 where cln: "Series_clone K0 st1 other0 = (c, st2)"
            by (cases "Series_clone K0 st1 other0")
          show ?thesis
          proof (cases c)
            case (Inl e2)
            with 1(2) run y \<open>r = Inl e1\<close> True cln have "e0 = e2"
              by (simp add: already_borrowed_def)
            moreover from cln Inl k have "\<not> already_borrowed e2"
              by (auto simp: Series_clone_def split: prod.splits sum.splits dest: cl)
            ultimately show ?thesis by simp
          next
            case (Inr o2)
            with 1(2) run y \<open>r = Inl e1\<close> True cln
            have "f K0 st2 self0 o2 ac0 = Some (Inl e0, st0')"
              by (simp add: already_borrowed_def)
            from 1(1) [OF this] k show ?thesis by simp
          qed
        qed
      qed
    qed
  qed
  then show ?thesis by simp
qed

text \<open>
  Claim C1. When the in-place native append (or extend) of \<open>Series.append\<close> fails with
  a \<open>RuntimeError\<close> whose text is "Already mutably borrowed", the call is the same call
  on a clone of \<open>other\<close>: it succeeds when that retry succeeds, and no returning call
  propagates the borrow conflict of the native append. When the native call fails
  with any other exception, that exception is raised unchanged, in the state the native
  call left.
\<close>

theorem append_retries_on_borrow_conflict:
  "(inplace_append K st self other ac = (Inl e, st1) \<and> already_borrowed e
      \<and> Series_clone K st1 other = (Inr other', st2)
      \<longrightarrow> Series_append K st self other ac = Series_append K st2 self other' ac)
   \<and> (inplace_append K st self other ac = (Inl e, st1) \<and> already_borrowed e
      \<and> Series_clone K st1 other = (Inr other', st2)
      \<and> inplace_append K st2 self other' ac = (Inr (), st3)
      \<longrightarrow> Series_append K st self other ac = Some (Inr (), st3))
   \<and> (inplace_append K st self other ac = (Inl e, st1) \<and> \<not> already_borrowed e
      \<longrightarrow> Series_append K st self other ac = Some (Inl e, st1))
   \<and> ((\<forall>s a x s'. cell_clone K s a = (Inl x, s') \<longrightarrow> \<not> already_borrowed x)
      \<and> Series_append K st self other ac = Some (Inl e', st')
      \<longrightarrow> \<not> already_borrowed e')"
proof (intro conjI impI)
  assume "inplace_append K st self other ac = (Inl e, st1) \<and> already_borrowed e
      \<and> Series_clone K st1 other = (Inr other', st2)"
  then show "Series_append K st self other ac = Series_append K st2 self other' ac"
    by (blast intro: append_retry)
next
  assume a: "inplace_append K st self other ac = (Inl e, st1) \<and> already_borrowed e
      \<and> Series_clone K st1 other = (Inr other', st2)
      \<and> inplace_append K st2 self other' ac = (Inr (), st3)"
  then have "Series_append K st self other ac = Series_append K st2 self other' ac"
    by (blast intro: append_retry)
  also from a have "\<dots> = Some (Inr (), st3)"
    by (blast intro: append_ok)
  finally show "Series_append K st self other ac = Some (Inr (), st3)" .
next
  assume "inplace_append K st self other ac = (Inl e, st1) \<and> \<not> already_borrowed e"
  then show "Series_append K st self other ac = Some (Inl e, st1)"
    by (blast intro: append_reraise)
next
  assume a: "(\<forall>s a x s'. cell_clone K s a = (Inl x, s') \<longrightarrow> \<not> already_borrowed x)
      \<and> Series_append K st self other ac = Some (Inl e', st')"
  then have "\<And>s a x s'. cell_clone K s a = (Inl x, s') \<Longrightarrow> \<not> already_borrowed x"
    by blast
  moreover from a have "Series_append K st self other ac = Some (Inl e', st')" by blast
  ultimately show "\<not> already_borrowed e'"
    by (rule append_never_borrow)
qed

text \<open>
  The witness appends a column to itself: the native append refuses the aliased
  argument, the clone is a second object, and the retry doubles the column.
\<close>

theorem append_retries_on_borrow_conflict_witness:
  "map_option (\<lambda>(r, st). (r, objs st 0, objs st 1, next_ref st))
     (Series_append store_kernels
        \<lparr>objs = Map.empty(0 \<mapsto> \<lparr>ps_name = ''a'', ps_dtype = Int64, ps_values = [1, 2, 3 :: int]\<rparr>),
         next_ref = 1\<rparr>
        (Series 0) (Series 0) True)
   = Some (Inr (),
           Some \<lparr>ps_name = ''a'', ps_dtype = Int64, ps_values = [1, 2, 3, 1, 2, 3]\<rparr>,
           Some \<lparr>ps_name = ''a'', ps_dtype = Int64, ps_values = [1, 2, 3]\<rparr>, 2)"
proof -
  let ?p = "\<lparr>ps_name = ''a'', ps_dtype = Int64, ps_values = [1, 2, 3 :: int]\<rparr>"
  let ?st = "\<lparr>objs = Map.empty(0 \<mapsto> ?p), next_ref = 1\<rparr>"
  let ?st2 = "\<lparr>objs = (Map.empty(0 \<mapsto> ?p))(1 \<mapsto> ?p), next_ref = 2\<rparr>"
  let ?st3 = "?st2\<lparr>objs := (objs ?st2)(0 \<mapsto> ?p\<lparr>ps_values := ps_values ?p @ ps_values ?p\<rparr>)\<rparr>"
  let ?e = "PyExc RuntimeError ''Already mutably borrowed''"
  have 1: "inplace_append store_kernels ?st (Series 0) (Series 0) True = (Inl ?e, ?st)"
    by (simp add: inplace_append_def store_kernels_def store_append_def)
  have 2: "already_borrowed ?e"
    by (simp add: already_borrowed_def)
  have 3: "Series_clone store_kernels ?st (Series 0) = (Inr (Series 1), ?st2)"
    by (simp add: Series_clone_def store_kernels_def store_clone_def alloc_def)
  have 4: "inplace_append store_kernels ?st2 (Series 0) (Series 1) True = (Inr (), ?st3)"
    by (simp add: inplace_append_def store_kernels_def store_append_def)
  from append_retries_on_borrow_conflict
         [of store_kernels ?st "Series 0" "Series 0" True ?e ?st "Series 1" ?st2 ?st3] 1 2 3 4
  have "Series_append store_kernels ?st (Series 0) (Series 0) True = Some (Inr (), ?st3)"
    by blast
  then show ?thesis by simp
qed

section \<open>Properties of \<open>Series.__init__\<close>\<close>

lemma sequence_to_pyseries_empty:
  "sequence_to_pyseries N name [] None strict = polars_type_to_constructor N Float32 name [] strict"
  by (simp add: sequence_to_pyseries_def split: sum.splits)

lemma new_series_dtype:
  "new_series st r = (Inr s, st') \<Longrightarrow> \<exists>p. r = Inr p \<and> objs st' (inner s) = Some p"
  by (auto simp: new_series_def alloc_def split: sum.splits)

text \<open>
  Claim C8. \<open>Series(m, s)\<close> on a live \<open>Series\<close> \<open>s\<close> returns a \<open>Series\<close> that holds the
  native column of \<open>s\<close> itself: no column is allocated, the column keeps its dtype and
  values and gets the name \<open>m\<close> in place, every other column is untouched, and so both the
  new \<open>Series\<close> and \<open>s\<close> carry the name \<open>m\<close> afterwards.
\<close>

theorem series_from_series_shares_storage:
  assumes "objs st (inner s) = Some p"
  shows "\<exists>s' st'. Series_init N C st (Some (Inl m)) (Some (ValSeries s)) dtype strict nan_to_null
                     = (Inr s', st')
           \<and> inner s' = inner s
           \<and> next_ref st' = next_ref st
           \<and> objs st' (inner s) = Some (p\<lparr>ps_name := m\<rparr>)
           \<and> (\<forall>r. r \<noteq> inner s \<longrightarrow> objs st' r = objs st r)
           \<and> Series_name st' s' = Some m
           \<and> Series_name st' s = Some m"
  using assms
  by (simp add: Series_init_def series_to_pyseries_def Series_rename_def store_rename_def
      Series_name_def)

theorem series_from_series_shares_storage_witness:
  "\<exists>s' st'. Series_init exact_native no_converters
        \<lparr>objs = Map.empty(0 \<mapsto> \<lparr>ps_name = ''a'', ps_dtype = Int64, ps_values = [PInt 1, PInt 2]\<rparr>),
         next_ref = 1\<rparr>
        (Some (Inl ''b'')) (Some (ValSeries (Series 0))) None True False = (Inr s', st')
     \<and> inner s' = 0
     \<and> next_ref st' = 1
     \<and> objs st' 0 = Some \<lparr>ps_name = ''b'', ps_dtype = Int64, ps_values = [PInt 1, PInt 2]\<rparr>
     \<and> Series_name st' (Series 0) = Some ''b''"
  using series_from_series_shares_storage
    [of "\<lparr>objs = Map.empty(0 \<mapsto> \<lparr>ps_name = ''a'', ps_dtype = Int64, ps_values = [PInt 1, PInt 2]\<rparr>),
          next_ref = 1\<rparr>" "Series 0"
        "\<lparr>ps_name = ''a'', ps_dtype = Int64, ps_values = [PInt 1, PInt 2]\<rparr>"
        exact_native no_converters "''b''" None True False]
  by auto

text \<open>
  Claim C7. A \<open>Series\<close> built with no dtype from \<open>values = None\<close> or from an empty
  sequence (the name a string or \<open>None\<close>, or the empty sequence passed in the first
  position) is built by the constructor of Float32 on the empty sequence; with a
  constructor that gives a column of the dtype it is asked for, every \<open>Series\<close> so
  constructed has dtype Float32.
\<close>

theorem empty_series_defaults_to_Float32:
  assumes ctor: "\<And>name strict p. polars_type_to_constructor N Float32 name [] strict = Inr p
                    \<Longrightarrow> ps_dtype p = Float32"
    and empty: "(vals = None \<or> vals = Some (ValSequence []))
                  \<and> (name = None \<or> (\<exists>n. name = Some (Inl n)))
                \<or> (name = Some (Inr (ValSequence [])) \<and> vals = None)"
  shows "(\<exists>name' strict'. Series_init N C st name vals None strict nan_to_null
             = new_series st (polars_type_to_constructor N Float32 name' [] strict'))
       \<and> (\<forall>s st'. Series_init N C st name vals None strict nan_to_null = (Inr s, st')
             \<longrightarrow> Series_dtype st' s = Some Float32)"
proof -
  from empty obtain name' strict' where
    eq: "Series_init N C st name vals None strict nan_to_null
           = new_series st (polars_type_to_constructor N Float32 name' [] strict')"
    by (auto simp: Series_init_def sequence_to_pyseries_empty)
  have "Series_dtype st' s = Some Float32"
    if "Series_init N C st name vals None strict nan_to_null = (Inr s, st')" for s st'
  proof -
    from that eq have "new_series st (polars_type_to_constructor N Float32 name' [] strict')
                         = (Inr s, st')"
      by simp
    then obtain p where "polars_type_to_constructor N Float32 name' [] strict' = Inr p"
      and "objs st' (inner s) = Some p"
      by (blast dest: new_series_dtype)
    then show ?thesis
      by (simp add: Series_dtype_def ctor)
  qed
  with eq show ?thesis by blast
qed

theorem empty_series_defaults_to_Float32_witness:
  "\<exists>s st'. Series_init exact_native no_converters \<lparr>objs = Map.empty, next_ref = 0\<rparr>
              (Some (Inl ''a'')) (Some (ValSequence [])) None True False = (Inr s, st')
     \<and> Series_dtype st' s = Some Float32"
proof -
  let ?st = "\<lparr>objs = Map.empty, next_ref = 0\<rparr> :: pyval store"
  let ?run = "Series_init exact_native no_converters ?st
                (Some (Inl ''a'')) (Some (ValSequence [])) None True False"
  have run: "\<exists>s st'. ?run = (Inr s, st')"
    by (simp add: Series_init_def sequence_to_pyseries_empty exact_native_def new_series_def
        alloc_def)
  have "(\<exists>name' strict'. ?run
             = new_series ?st (polars_type_to_constructor exact_native Float32 name' [] strict'))
       \<and> (\<forall>s st'. ?run = (Inr s, st') \<longrightarrow> Series_dtype st' s = Some Float32)"
    by (rule empty_series_defaults_to_Float32) (auto simp: exact_native_def)
  with run show ?thesis by blast
qed

section \<open>Properties of \<open>Series._pos_idxs\<close>\<close>

lemma fold_max_Max: "fold max xs (x::int) = Max (set (x # xs))"
  by (rule Max.set_eq_fold [symmetric])

lemma fold_min_Min: "fold min xs (x::int) = Min (set (x # xs))"
  by (rule Min.set_eq_fold [symmetric])

lemma series_max_Some:
  assumes "non_null (ps_values s) \<noteq> []"
  shows "series_max s = Some (Max (set (non_null (ps_values s))))"
  using assms by (cases "non_null (ps_values s)") (simp_all add: series_max_def fold_max_Max)

lemma series_min_Some:
  assumes "non_null (ps_values s) \<noteq> []"
  shows "series_min s = Some (Min (set (non_null (ps_values s))))"
  using assms by (cases "non_null (ps_values s)") (simp_all add: series_min_def fold_min_Min)

lemma cast_int_column_cong:
  "ps_name a = ps_name b \<Longrightarrow> ps_values a = ps_values b \<Longrightarrow>
   cast_int_column a d strict = cast_int_column b d strict"
  by (auto simp: cast_int_column_def split: option.splits)

lemma to_positive_id:
  assumes "\<forall>v \<in> set (non_null xs). 0 \<le> v"
  shows "map (map_option (to_positive n)) xs = xs"
  using assms by (induction xs rule: non_null.induct) (auto simp: to_positive_def)

lemma list_all_fits_iff:
  "list_all (fits b) xs \<longleftrightarrow> (\<forall>v \<in> set (non_null xs). fst b \<le> v \<and> v < snd b)"
  by (induction xs rule: non_null.induct) (auto simp: fits_def)

lemma cast_when_nonnegative:
  assumes "\<forall>v \<in> set (non_null (ps_values s)). 0 \<le> v"
  shows "cast_int_column (when_negative_add n s) d strict = cast_int_column s d strict"
  by (rule cast_int_column_cong) (simp_all add: when_negative_add_def to_positive_id [OF assms])

text \<open>
  With UInt32 as the index type and an index column that holds at least one value:
  a value of 2^32 or more in an Int64 or UInt64 column raises the \<open>ValueError\<close> of the
  upper check, a value below -(2^32) in an Int64 column raises a \<open>ValueError\<close>, and a
  column within both limits is cast to UInt32 after every negative value \<open>v\<close> has been
  replaced by \<open>n + v\<close>.
\<close>

lemma pos_idxs_series_in_range:
  assumes dt: "ps_dtype s \<in> {Int8, Int16, Int32, Int64, UInt8, UInt16, UInt64}"
    and wf: "column_in_range s"
    and ne: "non_null (ps_values s) \<noteq> []"
    and rng: "\<forall>v \<in> set (non_null (ps_values s)). - (2 ^ 32) \<le> v \<and> v < 2 ^ 32"
  shows "pos_idxs_series UInt32 n s = cast_int_column (when_negative_add n s) UInt32 True"
proof -
  let ?V = "set (non_null (ps_values s))"
  have fin: "finite ?V" and nemp: "?V \<noteq> {}" using ne by simp_all
  have mx: "series_max s = Some (Max ?V)" and mn: "series_min s = Some (Min ?V)"
    using ne by (simp_all add: series_max_Some series_min_Some)
  have hi: "\<not> Max ?V \<ge> 2 ^ 32" using rng fin nemp by (simp add: not_le)
  have lo: "\<not> Min ?V < - (2 ^ 32)" using rng fin nemp by (simp add: not_less)
  have nonneg: "\<forall>v \<in> ?V. 0 \<le> v" if "\<not> Min ?V < 0"
    using that fin nemp by (auto simp: not_less)
  have unsigned: "\<forall>v \<in> ?V. 0 \<le> v" if "ps_dtype s \<in> {UInt8, UInt16, UInt64}"
    using that wf by (auto simp: column_in_range_def list_all_fits_iff)
  have widen: "cast_int_column s Int32 True = Inr (s\<lparr>ps_dtype := Int32\<rparr>)"
    if "ps_dtype s \<in> {Int8, Int16}"
    using that wf by (fastforce simp: column_in_range_def cast_int_column_def list_all_fits_iff)
  have same: "cast_int_column (when_negative_add n (s\<lparr>ps_dtype := Int32\<rparr>)) UInt32 True
                = cast_int_column (when_negative_add n s) UInt32 True"
    by (rule cast_int_column_cong) (simp_all add: when_negative_add_def)
  from dt consider "ps_dtype s = Int64" | "ps_dtype s = Int32" | "ps_dtype s \<in> {Int8, Int16}"
    | "ps_dtype s \<in> {UInt8, UInt16, UInt64}" by auto
  then show ?thesis
  proof cases
    case 1
    then show ?thesis
      using hi lo nonneg
      by (simp add: pos_idxs_series_def bind_exc_def py_ge_def py_lt_def raise_if_def mx mn
          cast_when_nonnegative)
  next
    case 2
    then show ?thesis
      using nonneg
      by (simp add: pos_idxs_series_def bind_exc_def py_ge_def py_lt_def raise_if_def mx mn
          cast_when_nonnegative)
  next
    case 3
    then show ?thesis
      using nonneg widen same
      by (auto simp: pos_idxs_series_def bind_exc_def py_ge_def py_lt_def raise_if_def mx mn
          cast_when_nonnegative)
  next
    case 4
    then show ?thesis
      using hi unsigned
      by (auto simp: pos_idxs_series_def bind_exc_def py_ge_def py_lt_def raise_if_def mx mn
          cast_when_nonnegative)
  qed
qed

lemma pos_idxs_series_too_big:
  assumes "ps_dtype s \<in> {Int64, UInt64}" and "\<exists>v \<in> set (non_null (ps_values s)). v \<ge> 2 ^ 32"
  shows "pos_idxs_series UInt32 n s
           = Inl (PyExc ValueError ''Index positions should be smaller than 2^32.'')"
proof -
  let ?V = "set (non_null (ps_values s))"
  from assms(2) have ne: "non_null (ps_values s) \<noteq> []" by auto
  then have mx: "series_max s = Some (Max ?V)" by (simp add: series_max_Some)
  from assms(2) have "Max ?V \<ge> 2 ^ 32"
    by (meson List.finite_set Max_ge order_trans)
  with assms(1) mx show ?thesis
    by (auto simp: pos_idxs_series_def bind_exc_def py_ge_def raise_if_def)
qed

lemma pos_idxs_series_too_small:
  assumes "ps_dtype s = Int64" and "\<exists>v \<in> set (non_null (ps_values s)). v < - (2 ^ 32)"
  shows "\<exists>msg. pos_idxs_series UInt32 n s = Inl (PyExc ValueError msg)"
proof -
  let ?V = "set (non_null (ps_values s))"
  from assms(2) have ne: "non_null (ps_values s) \<noteq> []" by auto
  then have mx: "series_max s = Some (Max ?V)" and mn: "series_min s = Some (Min ?V)"
    by (simp_all add: series_max_Some series_min_Some)
  from assms(2) have "Min ?V < - (2 ^ 32)"
    by (meson List.finite_set Min_le le_less_trans)
  with assms(1) mx mn show ?thesis
    by (auto simp: pos_idxs_series_def bind_exc_def py_ge_def py_lt_def raise_if_def)
qed

text \<open>
  A numpy array of integers of one dimension with at least one element: the upper limit
  is never checked, since the set test of the dtype that guards it is always false. A
  value below -(2^32) in an int64 array raises a \<open>ValueError\<close>; every other array is
  handed to the strict cast to UInt32 after its negative values \<open>v\<close> have been replaced
  by \<open>n + v\<close>, values of 2^32 or more included.
\<close>

lemma np_min_Min: "nd_data a \<noteq> [] \<Longrightarrow> np_min a = Inr (Min (set (nd_data a)))"
  by (cases "nd_data a") (simp_all add: np_min_def fold_min_Min)

lemma non_null_map_Some: "non_null (map Some xs) = xs"
  by (induction xs) simp_all

lemma pos_idxs_numpy_above_lower_limit:
  assumes dim: "nd_ndim a = 1"
    and kind: "np_kind (nd_dtype a) \<in> {CHR ''i'', CHR ''u''}"
    and wf: "column_in_range (numpy_int_to_pyseries '''' a)"
    and ne: "nd_data a \<noteq> []"
    and rng: "\<forall>v \<in> set (nd_data a). - (2 ^ 32) \<le> v"
  shows "pos_idxs_numpy UInt32 n a
           = cast_int_column (when_negative_add n (numpy_int_to_pyseries '''' a)) UInt32 True"
proof -
  let ?V = "set (nd_data a)"
  have fin: "finite ?V" and nemp: "?V \<noteq> {}" using ne by simp_all
  have mn: "np_min a = Inr (Min ?V)"
    using ne by (simp add: np_min_Min)
  have lo: "\<not> Min ?V < - (2 ^ 32)" using rng fin nemp by (simp add: not_less)
  have nonneg: "map (to_positive n) (nd_data a) = nd_data a" if "\<forall>v \<in> ?V. 0 \<le> v"
    using that by (intro map_idI) (auto simp: to_positive_def)
  have min_nonneg: "\<forall>v \<in> ?V. 0 \<le> v" if "\<not> Min ?V < 0"
    using that fin nemp by (auto simp: not_less)
  have unsigned: "\<forall>v \<in> ?V. 0 \<le> v" if "np_kind (nd_dtype a) = CHR ''u''"
    using that wf
    by (cases "nd_dtype a")
       (auto simp: column_in_range_def numpy_int_to_pyseries_def list_all_fits_iff non_null_map_Some)
  have shape: "cast_int_column (numpy_int_to_pyseries '''' b) UInt32 True
                 = cast_int_column (when_negative_add n (numpy_int_to_pyseries '''' a)) UInt32 True"
    if "nd_data b = map (to_positive n) (nd_data a)" for b
    by (rule cast_int_column_cong)
       (simp_all add: numpy_int_to_pyseries_def when_negative_add_def that)
  have keep: "cast_int_column (numpy_int_to_pyseries '''' a) UInt32 True
                 = cast_int_column (when_negative_add n (numpy_int_to_pyseries '''' a)) UInt32 True"
    if "\<forall>v \<in> ?V. 0 \<le> v"
    by (rule shape) (simp add: nonneg [OF that])
  show ?thesis
  proof (cases "np_kind (nd_dtype a) = CHR ''i''")
    case True
    show ?thesis
    proof (cases "Min ?V < 0")
      case neg: True
      show ?thesis
        using True neg lo dim
        by (simp add: pos_idxs_numpy_def bind_exc_def raise_if_def mn Series_from_numpy_idx_def
            shape np_where_negative_add_def np_astype_def np_dtype_in_set_def)
    next
      case False
      then show ?thesis
        using True lo dim keep [OF min_nonneg [OF False]]
        by (simp add: pos_idxs_numpy_def bind_exc_def raise_if_def mn Series_from_numpy_idx_def
            np_dtype_in_set_def)
    qed
  next
    case False
    with kind have u: "np_kind (nd_dtype a) = CHR ''u''" by simp
    then have "nd_dtype a \<noteq> np_int64" by auto
    then show ?thesis
      using u dim keep [OF unsigned [OF u]]
      by (simp add: pos_idxs_numpy_def bind_exc_def raise_if_def Series_from_numpy_idx_def
          np_dtype_in_set_def)
  qed
qed

lemma pos_idxs_numpy_too_small:
  assumes "nd_ndim a = 1" and "nd_dtype a = np_int64"
    and "\<exists>v \<in> set (nd_data a). v < - (2 ^ 32)"
  shows "pos_idxs_numpy UInt32 n a
           = Inl (PyExc ValueError ''Index positions should be bigger than -2^32 + 1.'')"
proof -
  from assms(3) have ne: "nd_data a \<noteq> []" by auto
  from assms(3) have "Min (set (nd_data a)) < - (2 ^ 32)"
    by (meson List.finite_set Min_le le_less_trans)
  with assms(1,2) np_min_Min [OF ne] show ?thesis
    by (auto simp: pos_idxs_numpy_def bind_exc_def raise_if_def np_dtype_in_set_def)
qed

text \<open>
  Claim C4. The claim lets every index input that is within the two limits pass: its
  negative values are translated and it is cast to the index type. An Int64 index
  column without any value is within the limits, and translating and casting it gives
  the empty UInt32 index (third statement below). The code does not get there: for a
  column without values \<open>max()\<close> is \<open>None\<close>, and the comparison
  \<open>idxs.max() >= 2**32\<close> of \<open>_pos_idxs\<close> raises a \<open>TypeError\<close>, which
  \<open>__getitem__\<close> hands to its caller.
\<close>

theorem pos_idxs_empty_index_raises:
  "Series_pos_idxs UInt32 True 3 (IdxSeries \<lparr>ps_name = ''i'', ps_dtype = Int64, ps_values = []\<rparr>)
     = Inl (PyExc TypeError
              (quoted ''>='' @ '' not supported between instances of '' @ quoted ''NoneType''
                 @ '' and '' @ quoted ''int''))
   \<and> Series_getitem_idx list_take no_filter UInt32 True
        \<lparr>ps_name = ''a'', ps_dtype = Int64, ps_values = [10, 20, 30 :: int]\<rparr>
        (IdxSeries \<lparr>ps_name = ''i'', ps_dtype = Int64, ps_values = []\<rparr>)
     = Inl (PyExc TypeError
              (quoted ''>='' @ '' not supported between instances of '' @ quoted ''NoneType''
                 @ '' and '' @ quoted ''int''))
   \<and> cast_int_column (when_negative_add 3 \<lparr>ps_name = ''i'', ps_dtype = Int64, ps_values = []\<rparr>)
        UInt32 True
     = Inr \<lparr>ps_name = ''i'', ps_dtype = UInt32, ps_values = []\<rparr>"
  by (simp add: Series_getitem_idx_def Series_pos_idxs_def pos_idxs_series_def bind_exc_def
      py_ge_def not_supported_def series_max_def cast_int_column_def when_negative_add_def)

text \<open>A gather with a negative index, run through \<open>__getitem__\<close>.\<close>

lemma getitem_negative_index_example:
  "Series_getitem_idx list_take no_filter UInt32 True
      \<lparr>ps_name = ''a'', ps_dtype = Int64, ps_values = [10, 20, 30 :: int]\<rparr>
      (IdxSeries \<lparr>ps_name = ''i'', ps_dtype = Int64, ps_values = [Some (- 1), Some 0]\<rparr>)
     = Inr \<lparr>ps_name = ''a'', ps_dtype = Int64, ps_values = [30, 10]\<rparr>"
  by (simp add: Series_getitem_idx_def Series_pos_idxs_def pos_idxs_series_def bind_exc_def
      py_ge_def py_lt_def raise_if_def series_max_def series_min_def cast_int_column_def
      when_negative_add_def to_positive_def fits_def list_take_def wrap_result_def wrap_s_def)

end
